theory Spec2Isabelle
  imports Complex_Main "HOL-Library.AList" "HOL-Library.Multiset" "HOL-Library.Sublist"
begin

section \<open>Values shared by the AI core service and the AI assistant service\<close>

text \<open>
  \<^verbatim>\<open>Record<string, any>\<close> is an object used as a dictionary: a partial map from keys
  to values. The values are opaque to the services (\<^verbatim>\<open>any\<close>); a small value type
  stands for them.
\<close>

datatype jsval = JUndefined | JNull | JBool bool | JNum int | JStr string

type_synonym metadata = "string \<rightharpoonup> jsval"

text \<open>
  \<^verbatim>\<open>IRange\<close> of the editor: 1-based line numbers and columns, hence naturals.
\<close>

record IRange =
  startLineNumber :: nat
  startColumn :: nat
  endLineNumber :: nat
  endColumn :: nat

datatype AiCompletionKind =
  Function | Variable | Class | Interface | Import | Method | Property | Parameter
  | Type | Keyword | Snippet

datatype AiEditKind = Insert | Replace | Delete | Refactor

text \<open>
  The result interfaces. Several of them have a field \<^verbatim>\<open>metadata\<close>, \<^verbatim>\<open>range\<close>,
  \<^verbatim>\<open>text\<close>, \<^verbatim>\<open>kind\<close> or \<^verbatim>\<open>language\<close>; a field name can belong to one record
  only, so those fields carry a prefix naming their interface. An optional field
  (\<^verbatim>\<open>metadata?\<close>) is an \<open>option\<close>. A score is a finite number (the interface's
  score lies between 0 and 1), a real here: \<^verbatim>\<open>NaN\<close> and the infinities are outside
  the model, and on finite numbers the sign of the rounded difference
  \<^verbatim>\<open>b.score - a.score\<close> is the sign of the exact one.
\<close>

record AiCompletion =
  comp_text :: string
  comp_range :: IRange
  comp_kind :: AiCompletionKind
  comp_score :: real
  comp_metadata :: "metadata option"

record AiCompletionResult =
  completions :: "AiCompletion list"
  cr_metadata :: "metadata option"

record AiCodeBlock =
  cb_code :: string
  cb_language :: string
  cb_range :: "IRange option"
  cb_explanation :: "string option"

record AiChatResponse =
  message :: string
  codeBlocks :: "AiCodeBlock list"
  suggestions :: "string list"
  chat_metadata :: "metadata option"

record AiCodeEdit =
  edit_range :: IRange
  edit_text :: string
  edit_kind :: AiEditKind

record AiCodeEditResult =
  edits :: "AiCodeEdit list"
  explanation :: "string option"
  edit_metadata :: "metadata option"


section \<open>JavaScript built-ins used by the result merger\<close>

text \<open>
  \<^verbatim>\<open>Object.assign(target, source)\<close> writes every own property of the source onto the
  target with an ordinary assignment \<^verbatim>\<open>target[key] = value\<close>: keys of the source
  overwrite, the other keys of the target stay. The target of the three merges is a
  fresh \<^verbatim>\<open>{}\<close>, and a \<open>metadata\<close> map holds the own keys of an object. On such a
  target the assignment to the key \<^verbatim>\<open>__proto__\<close> runs the setter inherited from
  \<^verbatim>\<open>Object.prototype\<close>: it replaces the prototype of the target when the value is an
  object or \<^verbatim>\<open>null\<close> and does nothing otherwise, and in no case gives the target an
  own key \<^verbatim>\<open>__proto__\<close>. (A source has that own key after \<^verbatim>\<open>JSON.parse\<close> or a
  computed key.) The prototype itself is not part of the map.
\<close>

definition object_assign :: "metadata \<Rightarrow> metadata \<Rightarrow> metadata" where
  "object_assign target source =
     (\<lambda>key. if key = ''__proto__'' then target key
            else (case source key of None \<Rightarrow> target key | Some v \<Rightarrow> Some v))"

text \<open>
  \<^verbatim>\<open>if (result.metadata) { Object.assign(metadata, result.metadata); }\<close>: an absent
  metadata object is skipped (every object, also the empty one, is truthy).
\<close>

definition assign_metadata :: "metadata \<Rightarrow> metadata option \<Rightarrow> metadata" where
  "assign_metadata md opt = (case opt of None \<Rightarrow> md | Some m \<Rightarrow> object_assign md m)"

text \<open>
  \<^verbatim>\<open>[...new Set(xs)]\<close>: a \<^verbatim>\<open>Set\<close> keeps its elements in insertion order and ignores
  the insertion of an element it already holds; spreading it lists the elements in
  that order.
\<close>

definition set_add :: "'a list \<Rightarrow> 'a \<Rightarrow> 'a list" where
  "set_add s x = (if x \<in> set s then s else s @ [x])"

definition new_Set :: "'a list \<Rightarrow> 'a list" where
  "new_Set xs = foldl set_add [] xs"

text \<open>
  Template literals render a number with \<^verbatim>\<open>Number::toString\<close>; for a natural number
  (below \<open>10\<^sup>2\<^sup>1\<close>, as every line number and column is) that is its decimal
  representation without leading zeros.
\<close>

definition digit_char :: "nat \<Rightarrow> char" where
  "digit_char d = char_of (48 + d)"

fun number_toString :: "nat \<Rightarrow> string" where
  "number_toString n =
     (if n < 10 then [digit_char n]
      else number_toString (n div 10) @ [digit_char (n mod 10)])"

declare number_toString.simps [simp del]

text \<open>
  \<^verbatim>\<open>Array.prototype.sort(compareFn)\<close> is stable: with a comparator \<open>cmp\<close>, \<open>a\<close> ends up
  after \<open>b\<close> when \<open>cmp a b > 0\<close>, and elements that compare equal keep their order. For
  a comparator that is a consistent order this fixes the result, whatever the
  engine's algorithm; stable insertion computes it.
\<close>

fun sort_insert :: "('a \<Rightarrow> 'a \<Rightarrow> real) \<Rightarrow> 'a \<Rightarrow> 'a list \<Rightarrow> 'a list" where
  "sort_insert cmp x [] = [x]"
| "sort_insert cmp x (y # ys) =
     (if cmp x y \<le> 0 then x # y # ys else y # sort_insert cmp x ys)"

definition array_sort :: "('a \<Rightarrow> 'a \<Rightarrow> real) \<Rightarrow> 'a list \<Rightarrow> 'a list" where
  "array_sort cmp xs = foldr (sort_insert cmp) xs []"


section \<open>AiResultMerger\<close>

text \<open>
  The key of \<^verbatim>\<open>deduplicateCompletions\<close>:
  \<^verbatim>\<open>`${completion.text}-${completion.range.startLineNumber}-${completion.range.startColumn}`\<close>.
\<close>

definition completion_key :: "AiCompletion \<Rightarrow> string" where
  "completion_key c =
     comp_text c @ ''-'' @ number_toString (startLineNumber (comp_range c))
       @ ''-'' @ number_toString (startColumn (comp_range c))"

text \<open>
  \<^verbatim>\<open>completions.filter(completion => { ... })\<close> with the set \<^verbatim>\<open>seen\<close> of the keys met
  so far: the callback runs on the elements from left to right.
\<close>

fun dedup_filter :: "string set \<Rightarrow> AiCompletion list \<Rightarrow> AiCompletion list" where
  "dedup_filter seen [] = []"
| "dedup_filter seen (c # cs) =
     (let key = completion_key c in
      if key \<in> seen then dedup_filter seen cs
      else c # dedup_filter (insert key seen) cs)"

definition deduplicateCompletions :: "AiCompletion list \<Rightarrow> AiCompletion list" where
  "deduplicateCompletions cs = dedup_filter {} cs"

text \<open>The comparator \<^verbatim>\<open>(a, b) => b.score - a.score\<close>.\<close>

definition by_score :: "AiCompletion \<Rightarrow> AiCompletion \<Rightarrow> real" where
  "by_score a b = comp_score b - comp_score a"

text \<open>
  \<^verbatim>\<open>mergeCompletionResults\<close>: the loop collects all completions and assigns the
  metadata objects onto one; then the completions are deduplicated and sorted.
\<close>

definition completion_step ::
  "AiCompletion list \<times> metadata \<Rightarrow> AiCompletionResult \<Rightarrow> AiCompletion list \<times> metadata" where
  "completion_step acc result =
     (fst acc @ completions result, assign_metadata (snd acc) (cr_metadata result))"

definition mergeCompletionResults :: "AiCompletionResult list \<Rightarrow> AiCompletionResult" where
  "mergeCompletionResults results =
     (let (allCompletions, md) = foldl completion_step ([], Map.empty) results;
          uniqueCompletions = deduplicateCompletions allCompletions
      in \<lparr>completions = array_sort by_score uniqueCompletions, cr_metadata = Some md\<rparr>)"

text \<open>
  \<^verbatim>\<open>mergeChatResults\<close>. The message is \<^verbatim>\<open>results[0]?.message || ''\<close>: the message of
  the first result, or the empty string when there is no result (an empty message is
  itself falsy and yields the empty string too).
\<close>

definition chat_step ::
  "AiCodeBlock list \<times> string list \<times> metadata \<Rightarrow> AiChatResponse
     \<Rightarrow> AiCodeBlock list \<times> string list \<times> metadata" where
  "chat_step acc result =
     (case acc of (blocks, suggs, md) \<Rightarrow>
        (blocks @ codeBlocks result, suggs @ suggestions result,
         assign_metadata md (chat_metadata result)))"

definition first_message :: "AiChatResponse list \<Rightarrow> string" where
  "first_message results =
     (case results of [] \<Rightarrow> ''''
      | r # _ \<Rightarrow> (if message r = '''' then '''' else message r))"

definition mergeChatResults :: "AiChatResponse list \<Rightarrow> AiChatResponse" where
  "mergeChatResults results =
     (let (allCodeBlocks, allSuggestions, md) = foldl chat_step ([], [], Map.empty) results
      in \<lparr>message = first_message results,
          codeBlocks = allCodeBlocks,
          suggestions = new_Set allSuggestions,
          chat_metadata = Some md\<rparr>)"

text \<open>
  \<^verbatim>\<open>mergeCodeEditResults\<close>. The explanation is \<^verbatim>\<open>results[0]?.explanation || ''\<close>.
\<close>

definition edit_step ::
  "AiCodeEdit list \<times> metadata \<Rightarrow> AiCodeEditResult \<Rightarrow> AiCodeEdit list \<times> metadata" where
  "edit_step acc result =
     (fst acc @ edits result, assign_metadata (snd acc) (edit_metadata result))"

definition first_explanation :: "AiCodeEditResult list \<Rightarrow> string" where
  "first_explanation results =
     (case results of [] \<Rightarrow> ''''
      | r # _ \<Rightarrow> (case explanation r of None \<Rightarrow> ''''
                  | Some e \<Rightarrow> (if e = '''' then '''' else e)))"

definition mergeCodeEditResults :: "AiCodeEditResult list \<Rightarrow> AiCodeEditResult" where
  "mergeCodeEditResults results =
     (let (allEdits, md) = foldl edit_step ([], Map.empty) results
      in \<lparr>edits = allEdits, explanation = Some (first_explanation results),
          edit_metadata = Some md\<rparr>)"


section \<open>AiProviderManager\<close>

datatype AiCapability =
  CodeCompletion | Chat | CodeEdit | Explanation | Refactoring | BugFix | TestGeneration
  | Documentation | CodeReview | PerformanceOptimization | SecurityAnalysis

text \<open>
  A provider is an object: \<open>object_ref\<close> is its identity, which \<^verbatim>\<open>indexOf\<close> compares;
  \<^verbatim>\<open>id\<close>, \<^verbatim>\<open>name\<close> and \<^verbatim>\<open>capabilities\<close> are its read-only fields.
\<close>

record AiProvider =
  object_ref :: nat
  provider_id :: string
  provider_name :: string
  capabilities :: "AiCapability list"

text \<open>
  The manager's four containers. \<^verbatim>\<open>providers\<close> is a \<^verbatim>\<open>Map<string, IAiProvider>\<close>, kept
  as the list of its entries in insertion order: \<^verbatim>\<open>set\<close> is \<open>AList.update\<close>,
  \<^verbatim>\<open>delete\<close> is \<open>AList.delete\<close>, \<^verbatim>\<open>size\<close> is the length. \<open>dispose_calls\<close> records
  the calls of \<^verbatim>\<open>provider.dispose()\<close>, in order: the one effect of the manager outside
  its own fields. The calls of \<^verbatim>\<open>logService.trace\<close> are left out.
\<close>

record AiProviderManager =
  providers :: "(string \<times> AiProvider) list"
  completionProviders :: "AiProvider list"
  chatProviders :: "AiProvider list"
  codeEditProviders :: "AiProvider list"
  dispose_calls :: "AiProvider list"

definition new_AiProviderManager :: AiProviderManager where
  "new_AiProviderManager =
     \<lparr>providers = [], completionProviders = [], chatProviders = [],
      codeEditProviders = [], dispose_calls = []\<rparr>"

text \<open>\<^verbatim>\<open>xs.indexOf(x)\<close>: the first index holding \<open>x\<close>, or \<open>-1\<close>.\<close>

fun indexOf :: "'a list \<Rightarrow> 'a \<Rightarrow> int" where
  "indexOf [] x = - 1"
| "indexOf (y # ys) x =
     (if y = x then 0
      else (let i = indexOf ys x in if i < 0 then - 1 else i + 1))"

text \<open>\<^verbatim>\<open>xs.splice(start, deleteCount)\<close> for \<open>start\<close> within the list.\<close>

definition splice :: "nat \<Rightarrow> nat \<Rightarrow> 'a list \<Rightarrow> 'a list" where
  "splice start deleteCount xs = take start xs @ drop (start + deleteCount) xs"

text \<open>The body shared by the three list disposers.\<close>

definition remove_provider :: "AiProvider list \<Rightarrow> AiProvider \<Rightarrow> AiProvider list" where
  "remove_provider xs provider =
     (let index = indexOf xs provider in
      if index \<ge> 0 then splice (nat index) 1 xs else xs)"

text \<open>
  Each registration returns an \<^verbatim>\<open>IDisposable\<close>, a closure over the provider; the
  constructor says which of the four closures it is, and \<open>dispose\<close> runs its body.
\<close>

datatype registration =
  AiProviderRegistration AiProvider
  | CodeCompletionRegistration AiProvider
  | ChatRegistration AiProvider
  | CodeEditRegistration AiProvider

definition registerAiProvider ::
  "AiProvider \<Rightarrow> AiProviderManager \<Rightarrow> registration \<times> AiProviderManager" where
  "registerAiProvider provider m =
     (AiProviderRegistration provider,
      m\<lparr>providers := AList.update (provider_id provider) provider (providers m)\<rparr>)"

definition registerCodeCompletionProvider ::
  "AiProvider \<Rightarrow> AiProviderManager \<Rightarrow> registration \<times> AiProviderManager" where
  "registerCodeCompletionProvider provider m =
     (CodeCompletionRegistration provider,
      m\<lparr>completionProviders := completionProviders m @ [provider]\<rparr>)"

definition registerChatProvider ::
  "AiProvider \<Rightarrow> AiProviderManager \<Rightarrow> registration \<times> AiProviderManager" where
  "registerChatProvider provider m =
     (ChatRegistration provider, m\<lparr>chatProviders := chatProviders m @ [provider]\<rparr>)"

definition registerCodeEditProvider ::
  "AiProvider \<Rightarrow> AiProviderManager \<Rightarrow> registration \<times> AiProviderManager" where
  "registerCodeEditProvider provider m =
     (CodeEditRegistration provider,
      m\<lparr>codeEditProviders := codeEditProviders m @ [provider]\<rparr>)"

fun dispose :: "registration \<Rightarrow> AiProviderManager \<Rightarrow> AiProviderManager" where
  "dispose (AiProviderRegistration provider) m =
     m\<lparr>providers := AList.delete (provider_id provider) (providers m),
       dispose_calls := dispose_calls m @ [provider]\<rparr>"
| "dispose (CodeCompletionRegistration provider) m =
     m\<lparr>completionProviders := remove_provider (completionProviders m) provider\<rparr>"
| "dispose (ChatRegistration provider) m =
     m\<lparr>chatProviders := remove_provider (chatProviders m) provider\<rparr>"
| "dispose (CodeEditRegistration provider) m =
     m\<lparr>codeEditProviders := remove_provider (codeEditProviders m) provider\<rparr>"

text \<open>\<^verbatim>\<open>isEnabled\<close>: \<^verbatim>\<open>this.providers.size > 0\<close>.\<close>

definition isEnabled :: "AiProviderManager \<Rightarrow> bool" where
  "isEnabled m = (length (providers m) > 0)"

definition getCompletionProviders :: "AiProviderManager \<Rightarrow> AiProvider list" where
  "getCompletionProviders m = completionProviders m"

definition getChatProviders :: "AiProviderManager \<Rightarrow> AiProvider list" where
  "getChatProviders m = chatProviders m"

definition getCodeEditProviders :: "AiProviderManager \<Rightarrow> AiProvider list" where
  "getCodeEditProviders m = codeEditProviders m"


section \<open>AiCoreService: dispatch\<close>

text \<open>Every failure is a JavaScript \<^verbatim>\<open>Error\<close> with its message.\<close>

datatype error = Error string

text \<open>
  A provider call returns a promise. What the dispatch sees of it is how it settles,
  fulfilled with a value (\<open>Inr\<close>) or rejected with an error (\<open>Inl\<close>), and when: the
  first component is the position of the settlement in time.
\<close>

type_synonym 'r settled = "nat \<times> (error + 'r)"

text \<open>
  \<^verbatim>\<open>Promise.all\<close> rejects with the error of the promise that rejects first in time,
  and is fulfilled with the values in the order of the promises when none rejects.
\<close>

fun first_rejection :: "'r settled list \<Rightarrow> (nat \<times> error) option" where
  "first_rejection [] = None"
| "first_rejection ((t, Inr v) # ps) = first_rejection ps"
| "first_rejection ((t, Inl e) # ps) =
     (case first_rejection ps of
        None \<Rightarrow> Some (t, e)
      | Some (t', e') \<Rightarrow> (if t' < t then Some (t', e') else Some (t, e)))"

fun fulfilled_values :: "'r settled list \<Rightarrow> 'r list" where
  "fulfilled_values [] = []"
| "fulfilled_values ((t, Inr v) # ps) = v # fulfilled_values ps"
| "fulfilled_values ((t, Inl e) # ps) = fulfilled_values ps"

definition Promise_all :: "'r settled list \<Rightarrow> error + 'r list" where
  "Promise_all promises =
     (case first_rejection promises of
        Some (t, e) \<Rightarrow> Inl e
      | None \<Rightarrow> Inr (fulfilled_values promises))"

text \<open>
  \<^verbatim>\<open>executeWithProviders\<close> maps the operation over the providers, which calls every
  one of them, and waits for all the promises. The wrapper around each call is an
  \<^verbatim>\<open>async\<close> function: it rethrows the provider's error after \<^verbatim>\<open>logService.warn\<close> (left
  out), and a provider method that throws instead of returning a promise yields a
  rejected promise like any other failure.
\<close>

definition executeWithProviders ::
  "AiProvider list \<Rightarrow> (AiProvider \<Rightarrow> 'r settled) \<Rightarrow> error + 'r list" where
  "executeWithProviders providers' operation = Promise_all (map operation providers')"

text \<open>\<^verbatim>\<open>validateProvidersExist\<close> throws or returns nothing.\<close>

definition validateProvidersExist :: "AiProviderManager \<Rightarrow> string \<Rightarrow> error + unit" where
  "validateProvidersExist m operationType =
     (let hasProviders = isEnabled m in
      if \<not> hasProviders
      then Inl (Error (''No AI providers registered for '' @ operationType))
      else Inr ())"

text \<open>
  The events a dispatch fires (request id and duration, which come from the clock and
  the random generator, are left out), and what a dispatch leaves behind: the promise's
  outcome, the providers whose operation was called, and the events fired.
\<close>

datatype 'r event = AiResponseEvent string 'r | AiErrorEvent error string

record 'r dispatch =
  outcome :: "error + 'r"
  invoked :: "AiProvider list"
  fired :: "'r event list"

text \<open>
  \<^verbatim>\<open>getCompletion\<close>, \<^verbatim>\<open>getChatResponse\<close>, \<^verbatim>\<open>getCodeEdit\<close> of the service built on
  \<^verbatim>\<open>AiProviderManager\<close>. The second argument is the providers' method with the
  request's arguments applied.
\<close>

definition getCompletion ::
  "AiProviderManager \<Rightarrow> (AiProvider \<Rightarrow> AiCompletionResult settled)
     \<Rightarrow> AiCompletionResult dispatch" where
  "getCompletion m provideCompletion =
     (case validateProvidersExist m ''completion'' of
        Inl err \<Rightarrow>
          \<lparr>outcome = Inl err, invoked = [], fired = [AiErrorEvent err ''getCompletion'']\<rparr>
      | Inr _ \<Rightarrow>
          (let ps = getCompletionProviders m in
           case executeWithProviders ps provideCompletion of
             Inl err \<Rightarrow>
               \<lparr>outcome = Inl err, invoked = ps,
                fired = [AiErrorEvent err ''getCompletion'']\<rparr>
           | Inr results \<Rightarrow>
               (let mergedResult = mergeCompletionResults results in
                \<lparr>outcome = Inr mergedResult, invoked = ps,
                 fired = [AiResponseEvent ''completion'' mergedResult]\<rparr>)))"

definition getChatResponse ::
  "AiProviderManager \<Rightarrow> (AiProvider \<Rightarrow> AiChatResponse settled)
     \<Rightarrow> AiChatResponse dispatch" where
  "getChatResponse m provideChatResponse =
     (case validateProvidersExist m ''chat'' of
        Inl err \<Rightarrow>
          \<lparr>outcome = Inl err, invoked = [], fired = [AiErrorEvent err ''getChatResponse'']\<rparr>
      | Inr _ \<Rightarrow>
          (let ps = getChatProviders m in
           case executeWithProviders ps provideChatResponse of
             Inl err \<Rightarrow>
               \<lparr>outcome = Inl err, invoked = ps,
                fired = [AiErrorEvent err ''getChatResponse'']\<rparr>
           | Inr results \<Rightarrow>
               (let mergedResult = mergeChatResults results in
                \<lparr>outcome = Inr mergedResult, invoked = ps,
                 fired = [AiResponseEvent ''chat'' mergedResult]\<rparr>)))"

definition getCodeEdit ::
  "AiProviderManager \<Rightarrow> (AiProvider \<Rightarrow> AiCodeEditResult settled)
     \<Rightarrow> AiCodeEditResult dispatch" where
  "getCodeEdit m provideCodeEdit =
     (case validateProvidersExist m ''code edit'' of
        Inl err \<Rightarrow>
          \<lparr>outcome = Inl err, invoked = [], fired = [AiErrorEvent err ''getCodeEdit'']\<rparr>
      | Inr _ \<Rightarrow>
          (let ps = getCodeEditProviders m in
           case executeWithProviders ps provideCodeEdit of
             Inl err \<Rightarrow>
               \<lparr>outcome = Inl err, invoked = ps,
                fired = [AiErrorEvent err ''getCodeEdit'']\<rparr>
           | Inr results \<Rightarrow>
               (let mergedResult = mergeCodeEditResults results in
                \<lparr>outcome = Inr mergedResult, invoked = ps,
                 fired = [AiResponseEvent ''codeEdit'' mergedResult]\<rparr>)))"

text \<open>
  The earlier revision of the service keeps the four containers in the service itself
  (the same fields) and tests the list of the kind at the head of each dispatch:
  \<^verbatim>\<open>if (this._completionProviders.length === 0) throw new Error(...)\<close>, then
  \<^verbatim>\<open>Promise.all(this._completionProviders.map(provider => provider.provideCompletion(...)))\<close>.
  Here no wrapper stands between \<^verbatim>\<open>map\<close> and the provider's method: a method that
  throws instead of returning a promise ends \<^verbatim>\<open>map\<close> at once, the later providers are
  not called, and the dispatch's \<^verbatim>\<open>catch\<close> receives the error. So a call either throws
  or returns a promise.
\<close>

datatype 'r call = Throws error | Returns "'r settled"

text \<open>
  \<^verbatim>\<open>providers.map(provider => provider.provideX(...))\<close>: the providers called, in
  order, and either the error thrown by the last of them or the promises of all.
\<close>

fun map_calls ::
  "(AiProvider \<Rightarrow> 'r call) \<Rightarrow> AiProvider list \<Rightarrow> AiProvider list \<times> (error + 'r settled list)"
  where
  "map_calls f [] = ([], Inr [])"
| "map_calls f (p # ps) =
     (case f p of
        Throws e \<Rightarrow> ([p], Inl e)
      | Returns promise \<Rightarrow>
          (case map_calls f ps of
             (called, Inl e) \<Rightarrow> (p # called, Inl e)
           | (called, Inr promises) \<Rightarrow> (p # called, Inr (promise # promises))))"

definition getCompletion_rev1 ::
  "AiProviderManager \<Rightarrow> (AiProvider \<Rightarrow> AiCompletionResult call)
     \<Rightarrow> AiCompletionResult dispatch" where
  "getCompletion_rev1 m provideCompletion =
     (if length (completionProviders m) = 0
      then (let err = Error ''No code completion providers registered'' in
            \<lparr>outcome = Inl err, invoked = [],
             fired = [AiErrorEvent err ''getCompletion'']\<rparr>)
      else (case map_calls provideCompletion (completionProviders m) of
              (called, Inl err) \<Rightarrow>
                \<lparr>outcome = Inl err, invoked = called,
                 fired = [AiErrorEvent err ''getCompletion'']\<rparr>
            | (called, Inr promises) \<Rightarrow>
                (case Promise_all promises of
                   Inl err \<Rightarrow>
                     \<lparr>outcome = Inl err, invoked = called,
                      fired = [AiErrorEvent err ''getCompletion'']\<rparr>
                 | Inr results \<Rightarrow>
                     (let mergedResult = mergeCompletionResults results in
                      \<lparr>outcome = Inr mergedResult, invoked = called,
                       fired = [AiResponseEvent ''completion'' mergedResult]\<rparr>))))"

definition getChatResponse_rev1 ::
  "AiProviderManager \<Rightarrow> (AiProvider \<Rightarrow> AiChatResponse call)
     \<Rightarrow> AiChatResponse dispatch" where
  "getChatResponse_rev1 m provideChatResponse =
     (if length (chatProviders m) = 0
      then (let err = Error ''No chat providers registered'' in
            \<lparr>outcome = Inl err, invoked = [],
             fired = [AiErrorEvent err ''getChatResponse'']\<rparr>)
      else (case map_calls provideChatResponse (chatProviders m) of
              (called, Inl err) \<Rightarrow>
                \<lparr>outcome = Inl err, invoked = called,
                 fired = [AiErrorEvent err ''getChatResponse'']\<rparr>
            | (called, Inr promises) \<Rightarrow>
                (case Promise_all promises of
                   Inl err \<Rightarrow>
                     \<lparr>outcome = Inl err, invoked = called,
                      fired = [AiErrorEvent err ''getChatResponse'']\<rparr>
                 | Inr results \<Rightarrow>
                     (let mergedResult = mergeChatResults results in
                      \<lparr>outcome = Inr mergedResult, invoked = called,
                       fired = [AiResponseEvent ''chat'' mergedResult]\<rparr>))))"

definition getCodeEdit_rev1 ::
  "AiProviderManager \<Rightarrow> (AiProvider \<Rightarrow> AiCodeEditResult call)
     \<Rightarrow> AiCodeEditResult dispatch" where
  "getCodeEdit_rev1 m provideCodeEdit =
     (if length (codeEditProviders m) = 0
      then (let err = Error ''No code edit providers registered'' in
            \<lparr>outcome = Inl err, invoked = [],
             fired = [AiErrorEvent err ''getCodeEdit'']\<rparr>)
      else (case map_calls provideCodeEdit (codeEditProviders m) of
              (called, Inl err) \<Rightarrow>
                \<lparr>outcome = Inl err, invoked = called,
                 fired = [AiErrorEvent err ''getCodeEdit'']\<rparr>
            | (called, Inr promises) \<Rightarrow>
                (case Promise_all promises of
                   Inl err \<Rightarrow>
                     \<lparr>outcome = Inl err, invoked = called,
                      fired = [AiErrorEvent err ''getCodeEdit'']\<rparr>
                 | Inr results \<Rightarrow>
                     (let mergedResult = mergeCodeEditResults results in
                      \<lparr>outcome = Inr mergedResult, invoked = called,
                       fired = [AiResponseEvent ''codeEdit'' mergedResult]\<rparr>))))"


section \<open>AiContextManager\<close>

text \<open>
  The three structured facets of a context are opaque here: the context manager only
  copies them.
\<close>

typedecl AiWorkspaceContext
typedecl AiFileContext
typedecl AiSelectionContext

text \<open>
  An optional field \<^verbatim>\<open>f?: T\<close> of an object is in one of three states, which the object
  spread tells apart: the object has no property \<^verbatim>\<open>f\<close>; it has the property with the
  value \<^verbatim>\<open>undefined\<close>; it has the property with a value of \<^verbatim>\<open>T\<close>.
\<close>

datatype 'a property = Absent | Undefined | Value 'a

text \<open>
  \<^verbatim>\<open>AiContext\<close>: seven optional fields (\<^verbatim>\<open>file\<close> is \<open>file_context\<close> here, and the
  event's \<^verbatim>\<open>context\<close> is \<open>event_context\<close>: both words are reserved).
  \<^verbatim>\<open>Partial<AiContext>\<close> is the same type, all the fields being optional already. The
  empty context is the object \<^verbatim>\<open>{}\<close>.
\<close>

record AiContext =
  workspace :: "AiWorkspaceContext property"
  file_context :: "AiFileContext property"
  selection :: "AiSelectionContext property"
  language :: "string property"
  framework :: "string property"
  projectType :: "string property"
  userPreferences :: "metadata property"

definition empty_context :: AiContext where
  "empty_context =
     \<lparr>workspace = Absent, file_context = Absent, selection = Absent, language = Absent,
      framework = Absent, projectType = Absent, userPreferences = Absent\<rparr>"

text \<open>
  The object spread \<^verbatim>\<open>{ ...a, ...b }\<close>: a property that \<open>b\<close> has comes from \<open>b\<close>, with
  its value (be it \<^verbatim>\<open>undefined\<close>); every other property comes from \<open>a\<close>.
\<close>

definition spread_field :: "'a property \<Rightarrow> 'a property \<Rightarrow> 'a property" where
  "spread_field a b = (case b of Absent \<Rightarrow> a | Undefined \<Rightarrow> Undefined | Value v \<Rightarrow> Value v)"

definition spread :: "AiContext \<Rightarrow> AiContext \<Rightarrow> AiContext" where
  "spread a b =
     \<lparr>workspace = spread_field (workspace a) (workspace b),
      file_context = spread_field (file_context a) (file_context b),
      selection = spread_field (selection a) (selection b),
      language = spread_field (language a) (language b),
      framework = spread_field (framework a) (framework b),
      projectType = spread_field (projectType a) (projectType b),
      userPreferences = spread_field (userPreferences a) (userPreferences b)\<rparr>"

record AiContextUpdateEvent =
  event_context :: AiContext
  changes :: AiContext

text \<open>
  The manager's state: the current context, the history, and the events fired on
  \<^verbatim>\<open>onContextUpdated\<close> so far.
\<close>

record AiContextManager =
  currentContext :: AiContext
  contextHistory :: "AiContext list"
  onContextUpdated :: "AiContextUpdateEvent list"

definition maxHistorySize :: nat where
  "maxHistorySize = 10"

definition new_AiContextManager :: AiContextManager where
  "new_AiContextManager =
     \<lparr>currentContext = empty_context, contextHistory = [], onContextUpdated = []\<rparr>"

text \<open>A shallow copy \<^verbatim>\<open>{ ...this.currentContext }\<close> is the same value.\<close>

definition getCurrentContext :: "AiContextManager \<Rightarrow> AiContext" where
  "getCurrentContext m = currentContext m"

text \<open>\<^verbatim>\<open>addToHistory\<close>: push, then shift once when the length exceeds the limit.\<close>

definition addToHistory :: "AiContext \<Rightarrow> AiContextManager \<Rightarrow> AiContextManager" where
  "addToHistory c m =
     (let pushed = contextHistory m @ [c] in
      m\<lparr>contextHistory :=
           (if length pushed > maxHistorySize then tl pushed else pushed)\<rparr>)"

definition setContext :: "AiContext \<Rightarrow> AiContextManager \<Rightarrow> AiContextManager" where
  "setContext ctx m =
     (let oldContext = currentContext m;
          m1 = m\<lparr>currentContext := spread (currentContext m) ctx\<rparr>;
          m2 = addToHistory oldContext m1
      in m2\<lparr>onContextUpdated :=
               onContextUpdated m2 @ [\<lparr>event_context = currentContext m2, changes = ctx\<rparr>]\<rparr>)"

definition clearContext :: "AiContextManager \<Rightarrow> AiContextManager" where
  "clearContext m = m\<lparr>currentContext := empty_context, contextHistory := []\<rparr>"

section \<open>Notions of the specification\<close>

text \<open>
  The identity of a completion for deduplication: its text and the start of its range.
\<close>

definition completion_identity :: "AiCompletion \<Rightarrow> string \<times> nat \<times> nat" where
  "completion_identity c =
     (comp_text c, startLineNumber (comp_range c), startColumn (comp_range c))"

text \<open>The key string that \<open>completion_key\<close> builds, as a function of the identity.\<close>

definition identity_key :: "string \<times> nat \<times> nat \<Rightarrow> string" where
  "identity_key i =
     (case i of (t, l, c) \<Rightarrow> t @ ''-'' @ number_toString l @ ''-'' @ number_toString c)"

text \<open>
  The duplicate-free union that preserves first-occurrence order: the elements of a list
  at the positions where they occur for the first time.
\<close>

definition first_occurrences :: "'a list \<Rightarrow> 'a list" where
  "first_occurrences xs =
     map (\<lambda>i. xs ! i) (filter (\<lambda>i. xs ! i \<notin> set (take i xs)) [0..<length xs])"

text \<open>The message of the first response whose message is not empty.\<close>

definition first_nonempty_message :: "AiChatResponse list \<Rightarrow> string" where
  "first_nonempty_message results =
     (case filter (\<lambda>r. message r \<noteq> '''') results of [] \<Rightarrow> '''' | r # _ \<Rightarrow> message r)"



text \<open>
  The strict failure policy of a dispatch \<open>d\<close> over the providers it invoked, each
  settling as \<open>operation\<close> says: the dispatch succeeds exactly when every invoked call
  succeeds, and then returns the merge of all the values in registration order; when it
  fails, its error is the error of an invoked call that rejected, the earliest one, and
  the one event fired is the error event with that error: no merged result, partial or
  not, is returned or published.
\<close>

definition all_or_nothing ::
  "'r dispatch \<Rightarrow> (AiProvider \<Rightarrow> 'r settled) \<Rightarrow> ('r list \<Rightarrow> 'r) \<Rightarrow> string \<Rightarrow> bool" where
  "all_or_nothing d operation merge opname \<longleftrightarrow>
     ((\<exists>r. outcome d = Inr r) \<longleftrightarrow> (\<forall>p \<in> set (invoked d). \<exists>v. snd (operation p) = Inr v))
   \<and> ((\<forall>p \<in> set (invoked d). \<exists>v. snd (operation p) = Inr v) \<longrightarrow>
        outcome d = Inr (merge (map (\<lambda>p. projr (snd (operation p))) (invoked d))))
   \<and> (\<forall>e. outcome d = Inl e \<longrightarrow>
        (\<exists>p \<in> set (invoked d). \<exists>t. operation p = (t, Inl e)
           \<and> (\<forall>q \<in> set (invoked d). \<forall>t' e'. operation q = (t', Inl e') \<longrightarrow> t \<le> t'))
        \<and> fired d = [AiErrorEvent e opname])"

text \<open>
  The contexts that a sequence of updates finds in place, one before each update,
  starting from the context \<open>c\<close>.
\<close>

fun pre_update_snapshots :: "AiContext \<Rightarrow> AiContext list \<Rightarrow> AiContext list" where
  "pre_update_snapshots c [] = []"
| "pre_update_snapshots c (u # us) = c # pre_update_snapshots (spread c u) us"


section \<open>The built-ins\<close>

lemma set_foldl_set_add: "set (foldl set_add s xs) = set s \<union> set xs"
  by (induction xs arbitrary: s) (auto simp: set_add_def)

lemma first_occurrences_snoc:
  "first_occurrences (xs @ [x]) = first_occurrences xs @ (if x \<in> set xs then [] else [x])"
proof -
  let ?P = "\<lambda>ys i. ys ! i \<notin> set (take i ys)"
  have a: "filter (?P (xs @ [x])) [0..<length xs] = filter (?P xs) [0..<length xs]"
    by (rule filter_cong) (auto simp: nth_append)
  have b: "map ((!) (xs @ [x])) (filter (?P xs) [0..<length xs])
         = map ((!) xs) (filter (?P xs) [0..<length xs])"
    by (rule map_cong) (auto simp: nth_append)
  have c: "map ((!) (xs @ [x])) (filter (?P (xs @ [x])) [length xs])
         = (if x \<in> set xs then [] else [x])"
    by simp
  have "first_occurrences (xs @ [x])
      = map ((!) (xs @ [x])) (filter (?P (xs @ [x])) ([0..<length xs] @ [length xs]))"
    unfolding first_occurrences_def
    by (simp only: length_append_singleton upt_Suc_append le0 if_True)
  also have "\<dots> = map ((!) (xs @ [x])) (filter (?P (xs @ [x])) [0..<length xs])
                  @ map ((!) (xs @ [x])) (filter (?P (xs @ [x])) [length xs])"
    by (simp only: filter_append map_append)
  also have "\<dots> = first_occurrences xs @ (if x \<in> set xs then [] else [x])"
    unfolding a b c first_occurrences_def ..
  finally show ?thesis .
qed

lemma new_Set_first_occurrences: "new_Set xs = first_occurrences xs"
proof (induction xs rule: rev_induct)
  case Nil
  show ?case by (simp add: new_Set_def first_occurrences_def)
next
  case (snoc x xs)
  have "set (new_Set xs) = set xs"
    by (simp add: new_Set_def set_foldl_set_add)
  then show ?case
    using snoc.IH by (simp add: new_Set_def first_occurrences_snoc set_add_def)
qed

lemma distinct_foldl_set_add: "distinct s \<Longrightarrow> distinct (foldl set_add s xs)"
  by (induction xs arbitrary: s) (auto simp: set_add_def)

lemma of_char_digit_char: "d < 10 \<Longrightarrow> (of_char (digit_char d) :: nat) = 48 + d"
  by (simp add: digit_char_def)

lemma digit_char_inj:
  assumes a: "a < 10" and b: "b < 10" and eq: "digit_char a = digit_char b"
  shows "a = b"
proof -
  have "48 + a = (of_char (digit_char a) :: nat)"
    using of_char_digit_char [OF a] by (rule sym)
  also have "\<dots> = of_char (digit_char b)"
    by (simp only: eq)
  also have "\<dots> = 48 + b"
    by (rule of_char_digit_char [OF b])
  finally show ?thesis by simp
qed

lemma digit_char_not_dash: "d < 10 \<Longrightarrow> digit_char d \<noteq> CHR ''-''"
proof
  assume d: "d < 10" and eq: "digit_char d = CHR ''-''"
  have "(of_char (CHR ''-'') :: nat) = 45" by simp
  moreover have "(of_char (CHR ''-'') :: nat) = 48 + d"
    using of_char_digit_char [OF d] by (simp only: eq)
  ultimately show False by linarith
qed

lemma number_toString_no_dash: "CHR ''-'' \<notin> set (number_toString n)"
proof (induction n rule: number_toString.induct)
  case (1 n)
  show ?case
  proof (cases "n < 10")
    case True
    then show ?thesis
      using digit_char_not_dash [of n]
      by (subst number_toString.simps) auto
  next
    case False
    then show ?thesis
      using "1.IH" digit_char_not_dash [of "n mod 10"]
      by (subst number_toString.simps) auto
  qed
qed

lemma number_toString_nonempty: "number_toString n \<noteq> []"
  by (subst number_toString.simps) simp

lemma number_toString_inj: "number_toString a = number_toString b \<Longrightarrow> a = b"
proof (induction a arbitrary: b rule: number_toString.induct)
  case (1 n)
  show ?case
  proof (cases "n < 10")
    case True
    show ?thesis
    proof (cases "b < 10")
      case b: True
      from "1.prems" True b have "digit_char n = digit_char b"
        by (simp add: number_toString.simps [of n] number_toString.simps [of b])
      then show ?thesis using True b by (rule_tac digit_char_inj)
    next
      case b: False
      from "1.prems" True b have "number_toString (b div 10) = []"
        by (simp add: number_toString.simps [of n] number_toString.simps [of b])
      then show ?thesis by (simp add: number_toString_nonempty)
    qed
  next
    case False
    show ?thesis
    proof (cases "b < 10")
      case b: True
      from "1.prems" False b have "number_toString (n div 10) = []"
        by (simp add: number_toString.simps [of n] number_toString.simps [of b])
      then show ?thesis by (simp add: number_toString_nonempty)
    next
      case b: False
      from "1.prems" False b
      have eq: "number_toString (n div 10) = number_toString (b div 10)"
        and d: "digit_char (n mod 10) = digit_char (b mod 10)"
        by (simp_all add: number_toString.simps [of n] number_toString.simps [of b])
      from "1.IH" [OF False eq] have "n div 10 = b div 10" .
      moreover from d have "n mod 10 = b mod 10"
        by (rule digit_char_inj [rotated 2]) simp_all
      ultimately show ?thesis
        by (metis div_mult_mod_eq)
    qed
  qed
qed

lemma sort_insert_by_score:
  "sort_insert by_score x ys = insort_key (\<lambda>c. - comp_score c) x ys"
  by (induction ys) (simp_all add: by_score_def)

lemma array_sort_by_score:
  "array_sort by_score xs = sort_key (\<lambda>c. - comp_score c) xs"
proof -
  have "sort_insert by_score = insort_key (\<lambda>c. - comp_score c)"
    by (intro ext) (rule sort_insert_by_score)
  then show ?thesis
    by (simp add: array_sort_def sort_key_def)
qed

section \<open>The result merger\<close>

subsection \<open>What the three loops compute\<close>




lemma foldl_completion_step:
  "foldl completion_step (cs, md) rs =
     (cs @ concat (map completions rs), foldl assign_metadata md (map cr_metadata rs))"
  by (induction rs arbitrary: cs md) (simp_all add: completion_step_def)

lemma foldl_chat_step:
  "foldl chat_step (bs, ss, md) rs =
     (bs @ concat (map codeBlocks rs), ss @ concat (map suggestions rs),
      foldl assign_metadata md (map chat_metadata rs))"
  by (induction rs arbitrary: bs ss md) (simp_all add: chat_step_def)


lemma mergeChatResults_fields:
  "message (mergeChatResults rs) = first_message rs"
  "codeBlocks (mergeChatResults rs) = concat (map codeBlocks rs)"
  "suggestions (mergeChatResults rs) = new_Set (concat (map suggestions rs))"
  "chat_metadata (mergeChatResults rs)
     = Some (foldl assign_metadata Map.empty (map chat_metadata rs))"
  by (simp_all add: mergeChatResults_def foldl_chat_step)


lemma mergeCompletionResults_fields:
  "completions (mergeCompletionResults rs) =
     sort_key (\<lambda>c. - comp_score c) (deduplicateCompletions (concat (map completions rs)))"
  "cr_metadata (mergeCompletionResults rs)
     = Some (foldl assign_metadata Map.empty (map cr_metadata rs))"
  by (simp_all add: mergeCompletionResults_def foldl_completion_step array_sort_by_score)

subsection \<open>The deduplication key\<close>

lemma split_at_last:
  "xs @ c # ys = xs' @ c # ys' \<Longrightarrow> c \<notin> set ys \<Longrightarrow> c \<notin> set ys' \<Longrightarrow> xs = xs' \<and> ys = ys'"
proof (induction xs arbitrary: xs')
  case Nil
  then show ?case by (cases xs') auto
next
  case (Cons a xs)
  show ?case
  proof (cases xs')
    case Nil
    with Cons.prems show ?thesis by auto
  next
    case (Cons b zs)
    with Cons.prems Cons.IH [of zs] show ?thesis by auto
  qed
qed

lemma completion_key_identity: "completion_key c = identity_key (completion_identity c)"
  by (simp add: completion_key_def identity_key_def completion_identity_def)

text \<open>
  No two identities share a key: a rendered number holds no dash, so the last two
  dashes of a key delimit the column and the line.
\<close>

lemma identity_key_inj: "identity_key i = identity_key j \<Longrightarrow> i = j"
proof -
  obtain t l c where i: "i = (t, l, c)" by (cases i)
  obtain t' l' c' where j: "j = (t', l', c')" by (cases j)
  assume "identity_key i = identity_key j"
  then have "(t @ CHR ''-'' # number_toString l) @ CHR ''-'' # number_toString c
           = (t' @ CHR ''-'' # number_toString l') @ CHR ''-'' # number_toString c'"
    by (simp add: identity_key_def i j)
  from split_at_last [OF this number_toString_no_dash number_toString_no_dash]
  have 1: "t @ CHR ''-'' # number_toString l = t' @ CHR ''-'' # number_toString l'"
    and 2: "number_toString c = number_toString c'"
    by simp_all
  from split_at_last [OF 1 number_toString_no_dash number_toString_no_dash]
  have 3: "t = t'" and 4: "number_toString l = number_toString l'"
    by simp_all
  from 2 3 4 show "i = j"
    by (simp add: i j number_toString_inj)
qed

lemma completion_key_eq_iff:
  "completion_key d = identity_key i \<longleftrightarrow> completion_identity d = i"
proof
  assume "completion_key d = identity_key i"
  then show "completion_identity d = i"
    by (intro identity_key_inj) (simp add: completion_key_identity)
next
  assume "completion_identity d = i"
  then show "completion_key d = identity_key i"
    by (simp add: completion_key_identity)
qed

subsection \<open>Deduplication\<close>

lemma filter_dedup_filter:
  "filter (\<lambda>d. completion_key d = k) (dedup_filter seen cs) =
     (if k \<in> seen then []
      else (case find (\<lambda>d. completion_key d = k) cs of None \<Rightarrow> [] | Some c \<Rightarrow> [c]))"
proof (induction cs arbitrary: seen)
  case Nil
  show ?case by simp
next
  case (Cons c cs)
  show ?case
    by (auto simp: Let_def Cons.IH)
qed

lemma dedup_filter_unseen: "c \<in> set (dedup_filter seen cs) \<Longrightarrow> completion_key c \<notin> seen"
  by (induction cs arbitrary: seen) (auto simp: Let_def split: if_splits)

lemma distinct_dedup_filter: "distinct (map completion_key (dedup_filter seen cs))"
proof (induction cs arbitrary: seen)
  case Nil
  show ?case by simp
next
  case (Cons c cs)
  have "completion_key c
          \<notin> completion_key ` set (dedup_filter (insert (completion_key c) seen) cs)"
  proof
    assume "completion_key c
              \<in> completion_key ` set (dedup_filter (insert (completion_key c) seen) cs)"
    then obtain d where d: "d \<in> set (dedup_filter (insert (completion_key c) seen) cs)"
      and k: "completion_key c = completion_key d"
      by (rule imageE)
    from dedup_filter_unseen [OF d] k show False by simp
  qed
  then show ?case
    by (simp add: Let_def Cons.IH)
qed

lemma subseq_dedup_filter: "subseq (dedup_filter seen cs) cs"
  by (induction cs arbitrary: seen) (auto simp: Let_def intro: list_emb_Cons)

lemma distinct_identity_dedup:
  "distinct (map completion_identity (deduplicateCompletions cs))"
proof -
  have "distinct (map completion_key (deduplicateCompletions cs))"
    by (simp add: deduplicateCompletions_def distinct_dedup_filter)
  then show ?thesis
    by (auto simp: distinct_map inj_on_def completion_key_identity)
qed

lemma filter_identity_dedup:
  "filter (\<lambda>d. completion_identity d = i) (deduplicateCompletions cs) =
     (case find (\<lambda>d. completion_identity d = i) cs of None \<Rightarrow> [] | Some c \<Rightarrow> [c])"
  using filter_dedup_filter [of "identity_key i" "{}" cs]
  by (simp add: deduplicateCompletions_def completion_key_eq_iff)

section \<open>Claims about the result merger\<close>

subsection \<open>Chat responses\<close>

text \<open>
  Claim C3 as stated fails on the message. When the first provider's message is empty
  and the second's is \<open>''Hello''\<close>, the first provider whose message is non-empty is
  the second one, yet the merged message is empty: \<^verbatim>\<open>results[0]?.message || ''\<close> reads
  the first response only.
\<close>

theorem C3_counterexample:
  "message (mergeChatResults
      [\<lparr>message = '''', codeBlocks = [], suggestions = [], chat_metadata = None\<rparr>,
       \<lparr>message = ''Hello'', codeBlocks = [], suggestions = [], chat_metadata = None\<rparr>])
     = ''''
   \<and> first_nonempty_message
      [\<lparr>message = '''', codeBlocks = [], suggestions = [], chat_metadata = None\<rparr>,
       \<lparr>message = ''Hello'', codeBlocks = [], suggestions = [], chat_metadata = None\<rparr>]
     = ''Hello''"
  by (simp add: mergeChatResults_fields first_message_def first_nonempty_message_def)

text \<open>
  Claim C3, amended. For every non-empty list of chat responses in registration order,
  the merged message is the message of the first response (empty when that one is
  empty); the merged code blocks are the concatenation of all code blocks in
  registration order; the merged suggestions are the duplicate-free union of all
  suggestions in first-occurrence order. With \<open>P1\<close> answering \<open>''Hi''\<close> with
  suggestions \<open>a, b\<close> and \<open>P2\<close> answering \<open>''Hello''\<close> with suggestions \<open>b, c\<close>, the
  merged message is \<open>''Hi''\<close> and the merged suggestions are \<open>a, b, c\<close>.
\<close>

theorem C3_chat_merge:
  "message (mergeChatResults (r # rs)) = message r
   \<and> codeBlocks (mergeChatResults (r # rs)) = concat (map codeBlocks (r # rs))
   \<and> suggestions (mergeChatResults (r # rs))
       = first_occurrences (concat (map suggestions (r # rs)))
   \<and> distinct (suggestions (mergeChatResults (r # rs)))
   \<and> set (suggestions (mergeChatResults (r # rs))) = set (concat (map suggestions (r # rs)))
   \<and> message (mergeChatResults
         [\<lparr>message = ''Hi'', codeBlocks = b1, suggestions = [''a'', ''b''],
           chat_metadata = m1\<rparr>,
          \<lparr>message = ''Hello'', codeBlocks = b2, suggestions = [''b'', ''c''],
           chat_metadata = m2\<rparr>]) = ''Hi''
   \<and> suggestions (mergeChatResults
         [\<lparr>message = ''Hi'', codeBlocks = b1, suggestions = [''a'', ''b''],
           chat_metadata = m1\<rparr>,
          \<lparr>message = ''Hello'', codeBlocks = b2, suggestions = [''b'', ''c''],
           chat_metadata = m2\<rparr>]) = [''a'', ''b'', ''c'']"
proof -
  have 1: "message (mergeChatResults (r # rs)) = message r"
    by (simp add: mergeChatResults_fields first_message_def)
  have 2: "suggestions (mergeChatResults (r # rs))
       = first_occurrences (concat (map suggestions (r # rs)))"
    by (simp only: mergeChatResults_fields new_Set_first_occurrences)
  have 3: "distinct (suggestions (mergeChatResults (r # rs)))"
    by (simp add: mergeChatResults_fields new_Set_def distinct_foldl_set_add)
  have 4: "set (suggestions (mergeChatResults (r # rs)))
       = set (concat (map suggestions (r # rs)))"
    by (simp only: mergeChatResults_fields new_Set_def set_foldl_set_add) simp
  have 5: "message (mergeChatResults
         [\<lparr>message = ''Hi'', codeBlocks = b1, suggestions = [''a'', ''b''],
           chat_metadata = m1\<rparr>,
          \<lparr>message = ''Hello'', codeBlocks = b2, suggestions = [''b'', ''c''],
           chat_metadata = m2\<rparr>]) = ''Hi''"
    by (simp add: mergeChatResults_fields first_message_def)
  have 6: "suggestions (mergeChatResults
         [\<lparr>message = ''Hi'', codeBlocks = b1, suggestions = [''a'', ''b''],
           chat_metadata = m1\<rparr>,
          \<lparr>message = ''Hello'', codeBlocks = b2, suggestions = [''b'', ''c''],
           chat_metadata = m2\<rparr>]) = [''a'', ''b'', ''c'']"
    by (simp add: mergeChatResults_fields new_Set_def set_add_def)
  from 1 2 3 4 5 6 show ?thesis
    by (simp only: mergeChatResults_fields simp_thms)
qed

subsection \<open>Completions\<close>

text \<open>
  Claim C4. For every identity \<open>i\<close> (text and range start), the merged completion list
  holds no completion of that identity when no provider returned one, and otherwise
  exactly one: the first completion of that identity in arrival order, as it arrived
  (score, kind, metadata and the rest of its range included). Hence no two merged
  completions share an identity. Two providers that return \<open>foo\<close> at line 3, column 7,
  with scores 0.5 and 0.8, merge to the first provider's completion alone.
\<close>

theorem C4_one_completion_per_identity:
  "filter (\<lambda>d. completion_identity d = i) (completions (mergeCompletionResults results)) =
     (case find (\<lambda>d. completion_identity d = i) (concat (map completions results)) of
        None \<Rightarrow> [] | Some c \<Rightarrow> [c])
   \<and> distinct (map completion_identity (completions (mergeCompletionResults results)))
   \<and> completions (mergeCompletionResults
       [\<lparr>completions =
          [\<lparr>comp_text = ''foo'',
            comp_range = \<lparr>startLineNumber = 3, startColumn = 7,
                          endLineNumber = 3, endColumn = 7\<rparr>,
            comp_kind = Function, comp_score = 0.5, comp_metadata = None\<rparr>],
         cr_metadata = None\<rparr>,
        \<lparr>completions =
          [\<lparr>comp_text = ''foo'',
            comp_range = \<lparr>startLineNumber = 3, startColumn = 7,
                          endLineNumber = 4, endColumn = 1\<rparr>,
            comp_kind = Method, comp_score = 0.8, comp_metadata = None\<rparr>],
         cr_metadata = None\<rparr>])
     = [\<lparr>comp_text = ''foo'',
         comp_range = \<lparr>startLineNumber = 3, startColumn = 7,
                       endLineNumber = 3, endColumn = 7\<rparr>,
         comp_kind = Function, comp_score = 0.5, comp_metadata = None\<rparr>]"
proof (intro conjI)
  show "filter (\<lambda>d. completion_identity d = i) (completions (mergeCompletionResults results)) =
     (case find (\<lambda>d. completion_identity d = i) (concat (map completions results)) of
        None \<Rightarrow> [] | Some c \<Rightarrow> [c])"
    by (simp add: mergeCompletionResults_fields filter_sort filter_identity_dedup
        split: option.split)
  have "mset (map completion_identity (completions (mergeCompletionResults results)))
      = mset (map completion_identity
                (deduplicateCompletions (concat (map completions results))))"
    by (simp add: mergeCompletionResults_fields)
  then show "distinct (map completion_identity (completions (mergeCompletionResults results)))"
    using distinct_identity_dedup mset_eq_imp_distinct_iff by blast
  show "completions (mergeCompletionResults
       [\<lparr>completions =
          [\<lparr>comp_text = ''foo'',
            comp_range = \<lparr>startLineNumber = 3, startColumn = 7,
                          endLineNumber = 3, endColumn = 7\<rparr>,
            comp_kind = Function, comp_score = 0.5, comp_metadata = None\<rparr>],
         cr_metadata = None\<rparr>,
        \<lparr>completions =
          [\<lparr>comp_text = ''foo'',
            comp_range = \<lparr>startLineNumber = 3, startColumn = 7,
                          endLineNumber = 4, endColumn = 1\<rparr>,
            comp_kind = Method, comp_score = 0.8, comp_metadata = None\<rparr>],
         cr_metadata = None\<rparr>])
     = [\<lparr>comp_text = ''foo'',
         comp_range = \<lparr>startLineNumber = 3, startColumn = 7,
                       endLineNumber = 3, endColumn = 7\<rparr>,
         comp_kind = Function, comp_score = 0.5, comp_metadata = None\<rparr>]"
    by (simp add: mergeCompletionResults_def completion_step_def deduplicateCompletions_def
        completion_key_def array_sort_def)
qed

text \<open>
  Claim C5. The merged completion list is sorted by descending score, and for every
  score \<open>s\<close> the merged completions of score \<open>s\<close> are the deduplicated arrivals of score
  \<open>s\<close> in their arrival order. One provider returning \<open>X\<close> then \<open>Y\<close>, both of score 0.9,
  at different ranges, merges to \<open>X, Y\<close>.
\<close>

theorem C5_sorted_by_score_stable:
  "sorted_wrt (\<lambda>a b. comp_score a \<ge> comp_score b)
     (completions (mergeCompletionResults results))
   \<and> filter (\<lambda>c. comp_score c = s) (completions (mergeCompletionResults results))
       = filter (\<lambda>c. comp_score c = s)
           (deduplicateCompletions (concat (map completions results)))
   \<and> subseq (filter (\<lambda>c. comp_score c = s) (completions (mergeCompletionResults results)))
       (concat (map completions results))
   \<and> map comp_text (completions (mergeCompletionResults
       [\<lparr>completions =
          [\<lparr>comp_text = ''X'',
            comp_range = \<lparr>startLineNumber = 1, startColumn = 1,
                          endLineNumber = 1, endColumn = 1\<rparr>,
            comp_kind = k1, comp_score = 0.9, comp_metadata = m1\<rparr>,
           \<lparr>comp_text = ''Y'',
            comp_range = \<lparr>startLineNumber = 2, startColumn = 1,
                          endLineNumber = 2, endColumn = 1\<rparr>,
            comp_kind = k2, comp_score = 0.9, comp_metadata = m2\<rparr>],
         cr_metadata = md\<rparr>])) = [''X'', ''Y'']"
proof -
  let ?merged = "completions (mergeCompletionResults results)"
  let ?all = "concat (map completions results)"
  have 1: "sorted_wrt (\<lambda>a b. comp_score a \<ge> comp_score b) ?merged"
    using sorted_sort_key [of "\<lambda>c. - comp_score c"]
    by (simp add: mergeCompletionResults_fields sorted_map)
  have 2: "filter (\<lambda>c. comp_score c = s) ?merged
       = filter (\<lambda>c. comp_score c = s) (deduplicateCompletions ?all)"
    using sort_key_stable [of "\<lambda>c. - comp_score c" "- s"]
    by (simp add: mergeCompletionResults_fields)
  have "subseq (filter (\<lambda>c. comp_score c = s) (deduplicateCompletions ?all))
          (deduplicateCompletions ?all)"
    by (rule subseq_filter_left)
  moreover have "subseq (deduplicateCompletions ?all) ?all"
    by (simp only: deduplicateCompletions_def subseq_dedup_filter)
  ultimately have 3: "subseq (filter (\<lambda>c. comp_score c = s) ?merged) ?all"
    unfolding 2 by (rule subseq_order.trans)
  have 4: "map comp_text (completions (mergeCompletionResults
       [\<lparr>completions =
          [\<lparr>comp_text = ''X'',
            comp_range = \<lparr>startLineNumber = 1, startColumn = 1,
                          endLineNumber = 1, endColumn = 1\<rparr>,
            comp_kind = k1, comp_score = 0.9, comp_metadata = m1\<rparr>,
           \<lparr>comp_text = ''Y'',
            comp_range = \<lparr>startLineNumber = 2, startColumn = 1,
                          endLineNumber = 2, endColumn = 1\<rparr>,
            comp_kind = k2, comp_score = 0.9, comp_metadata = m2\<rparr>],
         cr_metadata = md\<rparr>])) = [''X'', ''Y'']"
    by (simp add: mergeCompletionResults_def completion_step_def deduplicateCompletions_def
        completion_key_def array_sort_def by_score_def)
  from 1 2 3 4 show ?thesis by blast
qed

subsection \<open>Metadata\<close>




section \<open>The provider manager and the dispatch\<close>

subsection \<open>Removing a provider from a list\<close>

lemma indexOf_nonneg: "0 \<le> indexOf xs x \<longleftrightarrow> x \<in> set xs"
  by (induction xs) (auto simp: Let_def)

lemma indexOf_ge: "- 1 \<le> indexOf xs x"
  by (induction xs) (auto simp: Let_def)

lemma remove_provider_remove1: "remove_provider xs p = remove1 p xs"
proof (induction xs)
  case Nil
  show ?case by (simp add: remove_provider_def)
next
  case (Cons y ys)
  show ?case
  proof (cases "y = p")
    case True
    then show ?thesis by (simp add: remove_provider_def splice_def)
  next
    case False
    show ?thesis
    proof (cases "p \<in> set ys")
      case True
      then have i: "0 \<le> indexOf ys p" by (simp add: indexOf_nonneg)
      then have "nat (indexOf ys p + 1) = Suc (nat (indexOf ys p))" by simp
      with Cons.IH False i show ?thesis
        by (simp add: remove_provider_def splice_def Let_def)
    next
      case notin: False
      then have "\<not> 0 \<le> indexOf ys p" by (simp add: indexOf_nonneg)
      with False notin show ?thesis
        by (simp add: remove_provider_def Let_def remove1_idem)
    qed
  qed
qed

lemma remove1_changes: "p \<in> set ys \<Longrightarrow> remove1 p ys \<noteq> ys"
proof
  assume p: "p \<in> set ys" and eq: "remove1 p ys = ys"
  from p have "length (remove1 p ys) = length ys - 1"
    by (simp add: length_remove1)
  moreover from p have "0 < length ys"
    by (cases ys) simp_all
  moreover have "length (remove1 p ys) = length ys"
    by (simp only: eq)
  ultimately show False
    by linarith
qed

text \<open>
  A list disposer run twice right after its registration: the second run changes the
  list again exactly when the provider was on the list before the registration.
\<close>

lemma remove1_twice_after_append:
  "remove1 p (remove1 p (xs @ [p])) = remove1 p (xs @ [p]) \<longleftrightarrow> p \<notin> set xs"
proof (cases "p \<in> set xs")
  case True
  then have "p \<in> set (remove1 p (xs @ [p]))"
    by (simp add: remove1_append)
  from remove1_changes [OF this] True show ?thesis by simp
next
  case False
  then show ?thesis
    by (simp add: remove1_append remove1_idem)
qed

lemma dispose_list_registrations:
  "dispose (CodeCompletionRegistration p) m
     = m\<lparr>completionProviders := remove1 p (completionProviders m)\<rparr>"
  "dispose (ChatRegistration p) m = m\<lparr>chatProviders := remove1 p (chatProviders m)\<rparr>"
  "dispose (CodeEditRegistration p) m
     = m\<lparr>codeEditProviders := remove1 p (codeEditProviders m)\<rparr>"
  by (simp_all add: remove_provider_remove1)

lemma completion_disposed_twice:
  "dispose (CodeCompletionRegistration p)
     (dispose (CodeCompletionRegistration p)
        (m\<lparr>completionProviders := completionProviders m @ [p]\<rparr>))
   = dispose (CodeCompletionRegistration p)
       (m\<lparr>completionProviders := completionProviders m @ [p]\<rparr>)
   \<longleftrightarrow> p \<notin> set (completionProviders m)"
  (is "?l = ?r \<longleftrightarrow> _")
proof
  assume "?l = ?r"
  then have "completionProviders ?l = completionProviders ?r"
    by (rule arg_cong)
  then have "remove1 p (remove1 p (completionProviders m @ [p]))
           = remove1 p (completionProviders m @ [p])"
    by (simp only: dispose_list_registrations) simp
  then show "p \<notin> set (completionProviders m)"
    by (rule remove1_twice_after_append [THEN iffD1])
next
  assume "p \<notin> set (completionProviders m)"
  then show "?l = ?r"
    by (simp add: remove_provider_remove1 remove1_append remove1_idem)
qed

lemma chat_disposed_twice:
  "dispose (ChatRegistration p)
     (dispose (ChatRegistration p) (m\<lparr>chatProviders := chatProviders m @ [p]\<rparr>))
   = dispose (ChatRegistration p) (m\<lparr>chatProviders := chatProviders m @ [p]\<rparr>)
   \<longleftrightarrow> p \<notin> set (chatProviders m)"
  (is "?l = ?r \<longleftrightarrow> _")
proof
  assume "?l = ?r"
  then have "chatProviders ?l = chatProviders ?r"
    by (rule arg_cong)
  then have "remove1 p (remove1 p (chatProviders m @ [p])) = remove1 p (chatProviders m @ [p])"
    by (simp only: dispose_list_registrations) simp
  then show "p \<notin> set (chatProviders m)"
    by (rule remove1_twice_after_append [THEN iffD1])
next
  assume "p \<notin> set (chatProviders m)"
  then show "?l = ?r"
    by (simp add: remove_provider_remove1 remove1_append remove1_idem)
qed

lemma codeEdit_disposed_twice:
  "dispose (CodeEditRegistration p)
     (dispose (CodeEditRegistration p)
        (m\<lparr>codeEditProviders := codeEditProviders m @ [p]\<rparr>))
   = dispose (CodeEditRegistration p) (m\<lparr>codeEditProviders := codeEditProviders m @ [p]\<rparr>)
   \<longleftrightarrow> p \<notin> set (codeEditProviders m)"
  (is "?l = ?r \<longleftrightarrow> _")
proof
  assume "?l = ?r"
  then have "codeEditProviders ?l = codeEditProviders ?r"
    by (rule arg_cong)
  then have "remove1 p (remove1 p (codeEditProviders m @ [p]))
           = remove1 p (codeEditProviders m @ [p])"
    by (simp only: dispose_list_registrations) simp
  then show "p \<notin> set (codeEditProviders m)"
    by (rule remove1_twice_after_append [THEN iffD1])
next
  assume "p \<notin> set (codeEditProviders m)"
  then show "?l = ?r"
    by (simp add: remove_provider_remove1 remove1_append remove1_idem)
qed

subsection \<open>Waiting for all the providers\<close>

lemma first_rejection_None:
  "first_rejection ps = None \<longleftrightarrow> (\<forall>p \<in> set ps. \<exists>v. snd p = Inr v)"
  by (induction ps rule: first_rejection.induct) (auto split: option.splits)

lemma first_rejection_Some:
  "first_rejection ps = Some (t, e) \<Longrightarrow>
     (t, Inl e) \<in> set ps \<and> (\<forall>t' e'. (t', Inl e') \<in> set ps \<longrightarrow> t \<le> t')"
proof (induction ps arbitrary: t e rule: first_rejection.induct)
  case 1
  then show ?case by simp
next
  case (2 t0 v ps)
  then show ?case by auto
next
  case (3 t0 e0 ps)
  show ?case
  proof (cases "first_rejection ps")
    case None
    with "3.prems" first_rejection_None [of ps] show ?thesis by fastforce
  next
    case (Some a)
    obtain t1 e1 where a: "a = (t1, e1)" by (cases a)
    from "3.IH" [of t1 e1] Some a
    have ih: "(t1, Inl e1) \<in> set ps" "\<forall>t' e'. (t', Inl e') \<in> set ps \<longrightarrow> t1 \<le> t'"
      by simp_all
    show ?thesis
    proof (cases "t1 < t0")
      case True
      with "3.prems" Some a have "t = t1" "e = e1" by simp_all
      with ih True show ?thesis by auto
    next
      case False
      with "3.prems" Some a have "t = t0" "e = e0" by simp_all
      with ih False show ?thesis by fastforce
    qed
  qed
qed

lemma fulfilled_values_all:
  "\<forall>p \<in> set ps. \<exists>v. snd p = Inr v \<Longrightarrow> fulfilled_values ps = map (\<lambda>p. projr (snd p)) ps"
  by (induction ps rule: fulfilled_values.induct) auto

lemma executeWithProviders_fulfilled:
  assumes "\<forall>p \<in> set ps. \<exists>v. snd (operation p) = Inr v"
  shows "executeWithProviders ps operation = Inr (map (\<lambda>p. projr (snd (operation p))) ps)"
proof -
  from assms have all: "\<forall>x \<in> set (map operation ps). \<exists>v. snd x = Inr v"
    by simp
  then have "first_rejection (map operation ps) = None"
    by (simp only: first_rejection_None)
  moreover from all have "fulfilled_values (map operation ps)
      = map (\<lambda>x. projr (snd x)) (map operation ps)"
    by (rule fulfilled_values_all)
  ultimately show ?thesis
    by (simp add: executeWithProviders_def Promise_all_def comp_def)
qed

lemma executeWithProviders_rejected:
  assumes "executeWithProviders ps operation = Inl e"
  shows "\<exists>p \<in> set ps. \<exists>t. operation p = (t, Inl e)
           \<and> (\<forall>q \<in> set ps. \<forall>t' e'. operation q = (t', Inl e') \<longrightarrow> t \<le> t')"
proof -
  from assms obtain t where "first_rejection (map operation ps) = Some (t, e)"
    by (auto simp: executeWithProviders_def Promise_all_def split: option.splits)
  from first_rejection_Some [OF this]
  have 1: "(t, Inl e) \<in> set (map operation ps)"
    and 2: "\<forall>t' e'. (t', Inl e') \<in> set (map operation ps) \<longrightarrow> t \<le> t'"
    by simp_all
  from 1 obtain p where p: "p \<in> set ps" "operation p = (t, Inl e)" by auto
  from 2 have "\<forall>q \<in> set ps. \<forall>t' e'. operation q = (t', Inl e') \<longrightarrow> t \<le> t'"
    by (metis image_eqI list.set_map)
  with p show ?thesis by blast
qed

lemma executeWithProviders_Inr:
  assumes "executeWithProviders ps operation = Inr rs"
  shows "\<forall>p \<in> set ps. \<exists>v. snd (operation p) = Inr v"
proof -
  from assms have "first_rejection (map operation ps) = None"
    by (auto simp: executeWithProviders_def Promise_all_def split: option.splits)
  then show ?thesis
    by (simp add: first_rejection_None)
qed

lemma all_or_nothing_dispatch:
  assumes o: "outcome d = (case executeWithProviders ps operation of
                            Inl e \<Rightarrow> Inl e | Inr rs \<Rightarrow> Inr (merge rs))"
    and i: "invoked d = ps"
    and f: "\<And>e. executeWithProviders ps operation = Inl e \<Longrightarrow> fired d = [AiErrorEvent e opname]"
  shows "all_or_nothing d operation merge opname"
proof (cases "executeWithProviders ps operation")
  case (Inl e)
  from executeWithProviders_rejected [OF Inl]
  obtain p t where p: "p \<in> set ps" "operation p = (t, Inl e)"
    and m: "\<forall>q \<in> set ps. \<forall>t' e'. operation q = (t', Inl e') \<longrightarrow> t \<le> t'"
    by blast
  from p have no: "\<not> (\<forall>p \<in> set ps. \<exists>v. snd (operation p) = Inr v)"
    by force
  from o Inl have out: "outcome d = Inl e" by simp
  show ?thesis
    unfolding all_or_nothing_def i out
    using no p m f [OF Inl] by auto
next
  case (Inr rs)
  from executeWithProviders_Inr [OF Inr]
  have all: "\<forall>p \<in> set ps. \<exists>v. snd (operation p) = Inr v" .
  from executeWithProviders_fulfilled [OF all] Inr
  have "rs = map (\<lambda>p. projr (snd (operation p))) ps" by simp
  with o Inr have out: "outcome d = Inr (merge (map (\<lambda>p. projr (snd (operation p))) ps))"
    by simp
  show ?thesis
    unfolding all_or_nothing_def i out
    using all by simp
qed

lemma getCompletion_all_or_nothing:
  assumes "invoked (getCompletion m operation) \<noteq> []"
  shows "all_or_nothing (getCompletion m operation) operation mergeCompletionResults
           ''getCompletion''"
proof -
  from assms obtain u where v: "validateProvidersExist m ''completion'' = Inr u"
    by (cases "validateProvidersExist m ''completion''") (simp_all add: getCompletion_def)
  show ?thesis
    by (rule all_or_nothing_dispatch [where ps = "getCompletionProviders m"])
       (simp_all add: getCompletion_def v Let_def split: sum.splits)
qed

lemma getChatResponse_all_or_nothing:
  assumes "invoked (getChatResponse m operation) \<noteq> []"
  shows "all_or_nothing (getChatResponse m operation) operation mergeChatResults
           ''getChatResponse''"
proof -
  from assms obtain u where v: "validateProvidersExist m ''chat'' = Inr u"
    by (cases "validateProvidersExist m ''chat''") (simp_all add: getChatResponse_def)
  show ?thesis
    by (rule all_or_nothing_dispatch [where ps = "getChatProviders m"])
       (simp_all add: getChatResponse_def v Let_def split: sum.splits)
qed

lemma getCodeEdit_all_or_nothing:
  assumes "invoked (getCodeEdit m operation) \<noteq> []"
  shows "all_or_nothing (getCodeEdit m operation) operation mergeCodeEditResults
           ''getCodeEdit''"
proof -
  from assms obtain u where v: "validateProvidersExist m ''code edit'' = Inr u"
    by (cases "validateProvidersExist m ''code edit''") (simp_all add: getCodeEdit_def)
  show ?thesis
    by (rule all_or_nothing_dispatch [where ps = "getCodeEditProviders m"])
       (simp_all add: getCodeEdit_def v Let_def split: sum.splits)
qed

text \<open>
  The earlier revision of the service, which tests the list of the kind, fails at once
  when that list is empty, whatever else is registered.
\<close>

lemma rev1_no_providers:
  "completionProviders m = [] \<Longrightarrow>
     outcome (getCompletion_rev1 m op1) = Inl (Error ''No code completion providers registered'')
     \<and> invoked (getCompletion_rev1 m op1) = []"
  "chatProviders m = [] \<Longrightarrow>
     outcome (getChatResponse_rev1 m op2) = Inl (Error ''No chat providers registered'')
     \<and> invoked (getChatResponse_rev1 m op2) = []"
  "codeEditProviders m = [] \<Longrightarrow>
     outcome (getCodeEdit_rev1 m op3) = Inl (Error ''No code edit providers registered'')
     \<and> invoked (getCodeEdit_rev1 m op3) = []"
  by (simp_all add: getCompletion_rev1_def getChatResponse_rev1_def getCodeEdit_rev1_def
      Let_def)


section \<open>Claims about the provider manager and the dispatch\<close>

text \<open>
  Claim C1 does not hold of the service built on \<^verbatim>\<open>AiProviderManager\<close>:
  \<^verbatim>\<open>validateProvidersExist\<close> asks \<^verbatim>\<open>isEnabled\<close>, which looks at the map of general
  providers, not at the list of the kind. With one general provider registered and no
  provider of any kind, each of the three dispatches invokes nobody and succeeds with the
  merge of no results, where the claim requires the no-providers-registered failure.
\<close>

theorem C1_dispatch_with_general_provider_only:
  "outcome (getCompletion (snd (registerAiProvider g new_AiProviderManager)) provideCompletion)
     = Inr \<lparr>completions = [], cr_metadata = Some Map.empty\<rparr>
   \<and> outcome (getChatResponse (snd (registerAiProvider g new_AiProviderManager))
        provideChatResponse)
     = Inr \<lparr>message = '''', codeBlocks = [], suggestions = [], chat_metadata = Some Map.empty\<rparr>
   \<and> outcome (getCodeEdit (snd (registerAiProvider g new_AiProviderManager)) provideCodeEdit)
     = Inr \<lparr>edits = [], explanation = Some '''', edit_metadata = Some Map.empty\<rparr>
   \<and> completionProviders (snd (registerAiProvider g new_AiProviderManager)) = []
   \<and> chatProviders (snd (registerAiProvider g new_AiProviderManager)) = []
   \<and> codeEditProviders (snd (registerAiProvider g new_AiProviderManager)) = []"
  by (simp add: registerAiProvider_def new_AiProviderManager_def getCompletion_def
      getChatResponse_def getCodeEdit_def validateProvidersExist_def isEnabled_def
      getCompletionProviders_def getChatProviders_def getCodeEditProviders_def
      executeWithProviders_def Promise_all_def mergeCompletionResults_def
      mergeChatResults_def mergeCodeEditResults_def deduplicateCompletions_def
      array_sort_def new_Set_def first_message_def first_explanation_def Let_def)

text \<open>
  Claim C2. Every dispatch (completion, chat, code edit) that invokes at least one
  provider follows the strict failure policy \<open>all_or_nothing\<close>: it succeeds if and
  only if every invoked call succeeds; otherwise it rejects with the error of the
  invoked call that rejected first, and neither returns nor publishes a merged result.
\<close>

theorem C2_strict_failure:
  "(invoked (getCompletion m provideCompletion) \<noteq> [] \<longrightarrow>
      all_or_nothing (getCompletion m provideCompletion) provideCompletion
        mergeCompletionResults ''getCompletion'')
   \<and> (invoked (getChatResponse m provideChatResponse) \<noteq> [] \<longrightarrow>
      all_or_nothing (getChatResponse m provideChatResponse) provideChatResponse
        mergeChatResults ''getChatResponse'')
   \<and> (invoked (getCodeEdit m provideCodeEdit) \<noteq> [] \<longrightarrow>
      all_or_nothing (getCodeEdit m provideCodeEdit) provideCodeEdit
        mergeCodeEditResults ''getCodeEdit'')"
  using getCompletion_all_or_nothing getChatResponse_all_or_nothing getCodeEdit_all_or_nothing
  by blast

text \<open>
  Two providers \<open>A\<close> and \<open>B\<close>, registered in this order for the three kinds; \<open>A\<close> rejects
  at time 5, \<open>B\<close> succeeds at time 1. Each dispatch invokes both and rejects with
  \<open>A\<close>'s error.
\<close>

theorem C2_strict_failure_witness:
  "(let A = \<lparr>object_ref = 1, provider_id = ''A'', provider_name = ''A'', capabilities = []\<rparr>;
        B = \<lparr>object_ref = 2, provider_id = ''B'', provider_name = ''B'', capabilities = []\<rparr>;
        m = \<lparr>providers = [(''A'', A)], completionProviders = [A, B], chatProviders = [A, B],
             codeEditProviders = [A, B], dispose_calls = []\<rparr>;
        provideCompletion = (\<lambda>p. if p = A then (5, Inl (Error ''A failed''))
                               else (1, Inr \<lparr>completions = [], cr_metadata = None\<rparr>));
        provideChatResponse = (\<lambda>p. if p = A then (5, Inl (Error ''A failed''))
                               else (1, Inr \<lparr>message = ''ok'', codeBlocks = [], suggestions = [],
                                             chat_metadata = None\<rparr>));
        provideCodeEdit = (\<lambda>p. if p = A then (5, Inl (Error ''A failed''))
                               else (1, Inr \<lparr>edits = [], explanation = None,
                                             edit_metadata = None\<rparr>))
    in invoked (getCompletion m provideCompletion) = [A, B]
       \<and> all_or_nothing (getCompletion m provideCompletion) provideCompletion
            mergeCompletionResults ''getCompletion''
       \<and> outcome (getCompletion m provideCompletion) = Inl (Error ''A failed'')
       \<and> invoked (getChatResponse m provideChatResponse) = [A, B]
       \<and> all_or_nothing (getChatResponse m provideChatResponse) provideChatResponse
            mergeChatResults ''getChatResponse''
       \<and> outcome (getChatResponse m provideChatResponse) = Inl (Error ''A failed'')
       \<and> invoked (getCodeEdit m provideCodeEdit) = [A, B]
       \<and> all_or_nothing (getCodeEdit m provideCodeEdit) provideCodeEdit
            mergeCodeEditResults ''getCodeEdit''
       \<and> outcome (getCodeEdit m provideCodeEdit) = Inl (Error ''A failed''))"
  using C2_strict_failure
    [of "\<lparr>providers = [(''A'', \<lparr>object_ref = 1, provider_id = ''A'', provider_name = ''A'',
                                capabilities = []\<rparr>)],
          completionProviders =
            [\<lparr>object_ref = 1, provider_id = ''A'', provider_name = ''A'', capabilities = []\<rparr>,
             \<lparr>object_ref = 2, provider_id = ''B'', provider_name = ''B'', capabilities = []\<rparr>],
          chatProviders =
            [\<lparr>object_ref = 1, provider_id = ''A'', provider_name = ''A'', capabilities = []\<rparr>,
             \<lparr>object_ref = 2, provider_id = ''B'', provider_name = ''B'', capabilities = []\<rparr>],
          codeEditProviders =
            [\<lparr>object_ref = 1, provider_id = ''A'', provider_name = ''A'', capabilities = []\<rparr>,
             \<lparr>object_ref = 2, provider_id = ''B'', provider_name = ''B'', capabilities = []\<rparr>],
          dispose_calls = []\<rparr>"
        "\<lambda>p. if p = \<lparr>object_ref = 1, provider_id = ''A'', provider_name = ''A'',
                       capabilities = []\<rparr>
             then (5, Inl (Error ''A failed''))
             else (1, Inr \<lparr>completions = [], cr_metadata = None\<rparr>)"
        "\<lambda>p. if p = \<lparr>object_ref = 1, provider_id = ''A'', provider_name = ''A'',
                       capabilities = []\<rparr>
             then (5, Inl (Error ''A failed''))
             else (1, Inr \<lparr>message = ''ok'', codeBlocks = [], suggestions = [],
                           chat_metadata = None\<rparr>)"
        "\<lambda>p. if p = \<lparr>object_ref = 1, provider_id = ''A'', provider_name = ''A'',
                       capabilities = []\<rparr>
             then (5, Inl (Error ''A failed''))
             else (1, Inr \<lparr>edits = [], explanation = None, edit_metadata = None\<rparr>)"]
  by (simp add: Let_def getCompletion_def getChatResponse_def getCodeEdit_def
      validateProvidersExist_def isEnabled_def getCompletionProviders_def
      getChatProviders_def getCodeEditProviders_def executeWithProviders_def Promise_all_def)

text \<open>
  Claim C6 does not hold of the code: \<^verbatim>\<open>isEnabled\<close> is \<^verbatim>\<open>this.providers.size > 0\<close>, the
  map that only \<^verbatim>\<open>registerAiProvider\<close> fills. After a registration through one of the
  three kind-specific operations alone, \<^verbatim>\<open>isEnabled\<close> answers false; a chat provider
  registered that way is on the chat list, and the chat dispatch still fails for want of
  providers.
\<close>

theorem C6_isEnabled_after_kind_registration:
  "isEnabled (snd (registerCodeCompletionProvider p new_AiProviderManager)) = False
   \<and> isEnabled (snd (registerChatProvider p new_AiProviderManager)) = False
   \<and> isEnabled (snd (registerCodeEditProvider p new_AiProviderManager)) = False
   \<and> chatProviders (snd (registerChatProvider p new_AiProviderManager)) = [p]
   \<and> outcome (getChatResponse (snd (registerChatProvider p new_AiProviderManager))
        provideChatResponse) = Inl (Error ''No AI providers registered for chat'')"
  by (simp add: registerCodeCompletionProvider_def registerChatProvider_def
      registerCodeEditProvider_def new_AiProviderManager_def isEnabled_def
      getChatResponse_def validateProvidersExist_def)

text \<open>
  Claim C9 as stated fails three times. The capability returned by a kind-specific
  registration does not invoke the provider's dispose. The capability returned by
  \<^verbatim>\<open>registerAiProvider\<close> invokes the provider's dispose each time it is invoked: the
  second invocation is not a no-op. And the list capabilities are not idempotent
  either when the same provider is registered twice on a list: with the chat
  registrations \<open>p, q, p\<close>, the first capability turns the list \<open>[p, q, p]\<close> into
  \<open>[q, p]\<close> and, invoked again, into \<open>[q]\<close>: the second invocation removes the other
  registration.
\<close>

theorem C9_counterexample:
  "dispose_calls
     (dispose
        (fst (registerChatProvider
                \<lparr>object_ref = 1, provider_id = ''p'', provider_name = ''P'', capabilities = [Chat]\<rparr>
                new_AiProviderManager))
        (snd (registerChatProvider
                \<lparr>object_ref = 1, provider_id = ''p'', provider_name = ''P'', capabilities = [Chat]\<rparr>
                new_AiProviderManager)))
     = []
   \<and> dispose_calls
     (dispose
        (fst (registerAiProvider
                \<lparr>object_ref = 1, provider_id = ''p'', provider_name = ''P'', capabilities = [Chat]\<rparr>
                new_AiProviderManager))
        (dispose
           (fst (registerAiProvider
                   \<lparr>object_ref = 1, provider_id = ''p'', provider_name = ''P'', capabilities = [Chat]\<rparr>
                   new_AiProviderManager))
           (snd (registerAiProvider
                   \<lparr>object_ref = 1, provider_id = ''p'', provider_name = ''P'', capabilities = [Chat]\<rparr>
                   new_AiProviderManager))))
     = [\<lparr>object_ref = 1, provider_id = ''p'', provider_name = ''P'', capabilities = [Chat]\<rparr>,
        \<lparr>object_ref = 1, provider_id = ''p'', provider_name = ''P'', capabilities = [Chat]\<rparr>]
   \<and> chatProviders
        (snd (registerChatProvider
                 \<lparr>object_ref = 1, provider_id = ''p'', provider_name = ''P'', capabilities = [Chat]\<rparr>
                 (snd (registerChatProvider
                         \<lparr>object_ref = 2, provider_id = ''q'', provider_name = ''Q'', capabilities = [Chat]\<rparr>
                         (snd (registerChatProvider
                                 \<lparr>object_ref = 1, provider_id = ''p'', provider_name = ''P'', capabilities = [Chat]\<rparr>
                                 new_AiProviderManager))))))
     = [\<lparr>object_ref = 1, provider_id = ''p'', provider_name = ''P'', capabilities = [Chat]\<rparr>,
        \<lparr>object_ref = 2, provider_id = ''q'', provider_name = ''Q'', capabilities = [Chat]\<rparr>,
        \<lparr>object_ref = 1, provider_id = ''p'', provider_name = ''P'', capabilities = [Chat]\<rparr>]
   \<and> chatProviders
        (dispose
           (fst (registerChatProvider
                 \<lparr>object_ref = 1, provider_id = ''p'', provider_name = ''P'', capabilities = [Chat]\<rparr>
                 new_AiProviderManager))
           (snd (registerChatProvider
                 \<lparr>object_ref = 1, provider_id = ''p'', provider_name = ''P'', capabilities = [Chat]\<rparr>
                 (snd (registerChatProvider
                         \<lparr>object_ref = 2, provider_id = ''q'', provider_name = ''Q'', capabilities = [Chat]\<rparr>
                         (snd (registerChatProvider
                                 \<lparr>object_ref = 1, provider_id = ''p'', provider_name = ''P'', capabilities = [Chat]\<rparr>
                                 new_AiProviderManager)))))))
     = [\<lparr>object_ref = 2, provider_id = ''q'', provider_name = ''Q'', capabilities = [Chat]\<rparr>,
        \<lparr>object_ref = 1, provider_id = ''p'', provider_name = ''P'', capabilities = [Chat]\<rparr>]
   \<and> chatProviders
        (dispose
           (fst (registerChatProvider
                 \<lparr>object_ref = 1, provider_id = ''p'', provider_name = ''P'', capabilities = [Chat]\<rparr>
                 new_AiProviderManager))
           (dispose
              (fst (registerChatProvider
                 \<lparr>object_ref = 1, provider_id = ''p'', provider_name = ''P'', capabilities = [Chat]\<rparr>
                 new_AiProviderManager))
              (snd (registerChatProvider
                 \<lparr>object_ref = 1, provider_id = ''p'', provider_name = ''P'', capabilities = [Chat]\<rparr>
                 (snd (registerChatProvider
                         \<lparr>object_ref = 2, provider_id = ''q'', provider_name = ''Q'', capabilities = [Chat]\<rparr>
                         (snd (registerChatProvider
                                 \<lparr>object_ref = 1, provider_id = ''p'', provider_name = ''P'', capabilities = [Chat]\<rparr>
                                 new_AiProviderManager))))))))
     = [\<lparr>object_ref = 2, provider_id = ''q'', provider_name = ''Q'', capabilities = [Chat]\<rparr>]"
  by (simp add: registerChatProvider_def registerAiProvider_def new_AiProviderManager_def
      remove_provider_def splice_def)

text \<open>
  Claim C9, amended. The capability returned by a kind-specific registration removes, at
  every invocation, the first occurrence of the provider from the list of that kind and
  changes nothing else: no other list, not the general map, and the provider's dispose
  is not invoked. When the provider was not on that list before the registration,
  invoking the capability restores the state before the registration, and invoking it
  again is a no-op; when it was (the same provider registered twice), the second
  invocation removes a further occurrence: right after the registration, the capability
  is idempotent if and only if the provider was not on the list before. The capability
  returned by \<^verbatim>\<open>registerAiProvider\<close> deletes the entry under the provider's id from the
  general map and invokes the provider's dispose, at every invocation. None of the
  disposers, in either revision, remembers that it has run.
\<close>

theorem C9_unregister:
  "dispose (fst (registerCodeCompletionProvider p m0)) m
     = m\<lparr>completionProviders := remove1 p (completionProviders m)\<rparr>
   \<and> dispose (fst (registerChatProvider p m0)) m
     = m\<lparr>chatProviders := remove1 p (chatProviders m)\<rparr>
   \<and> dispose (fst (registerCodeEditProvider p m0)) m
     = m\<lparr>codeEditProviders := remove1 p (codeEditProviders m)\<rparr>
   \<and> dispose (fst (registerAiProvider p m0)) m
     = m\<lparr>providers := AList.delete (provider_id p) (providers m),
         dispose_calls := dispose_calls m @ [p]\<rparr>
   \<and> (p \<notin> set (completionProviders m) \<longrightarrow>
        dispose (fst (registerCodeCompletionProvider p m))
          (snd (registerCodeCompletionProvider p m)) = m
        \<and> dispose (fst (registerCodeCompletionProvider p m)) m = m)
   \<and> (p \<notin> set (chatProviders m) \<longrightarrow>
        dispose (fst (registerChatProvider p m)) (snd (registerChatProvider p m)) = m
        \<and> dispose (fst (registerChatProvider p m)) m = m)
   \<and> (p \<notin> set (codeEditProviders m) \<longrightarrow>
        dispose (fst (registerCodeEditProvider p m)) (snd (registerCodeEditProvider p m)) = m
        \<and> dispose (fst (registerCodeEditProvider p m)) m = m)
   \<and> (dispose (fst (registerCodeCompletionProvider p m))
         (dispose (fst (registerCodeCompletionProvider p m))
            (snd (registerCodeCompletionProvider p m)))
       = dispose (fst (registerCodeCompletionProvider p m))
           (snd (registerCodeCompletionProvider p m))
       \<longleftrightarrow> p \<notin> set (completionProviders m))
   \<and> (dispose (fst (registerChatProvider p m))
         (dispose (fst (registerChatProvider p m)) (snd (registerChatProvider p m)))
       = dispose (fst (registerChatProvider p m)) (snd (registerChatProvider p m))
       \<longleftrightarrow> p \<notin> set (chatProviders m))
   \<and> (dispose (fst (registerCodeEditProvider p m))
         (dispose (fst (registerCodeEditProvider p m)) (snd (registerCodeEditProvider p m)))
       = dispose (fst (registerCodeEditProvider p m)) (snd (registerCodeEditProvider p m))
       \<longleftrightarrow> p \<notin> set (codeEditProviders m))"
proof -
  have 1: "dispose (fst (registerCodeCompletionProvider p m0)) m
     = m\<lparr>completionProviders := remove1 p (completionProviders m)\<rparr>"
    by (simp add: registerCodeCompletionProvider_def remove_provider_remove1)
  have 2: "dispose (fst (registerChatProvider p m0)) m
     = m\<lparr>chatProviders := remove1 p (chatProviders m)\<rparr>"
    by (simp add: registerChatProvider_def remove_provider_remove1)
  have 3: "dispose (fst (registerCodeEditProvider p m0)) m
     = m\<lparr>codeEditProviders := remove1 p (codeEditProviders m)\<rparr>"
    by (simp add: registerCodeEditProvider_def remove_provider_remove1)
  have 4: "dispose (fst (registerAiProvider p m0)) m
     = m\<lparr>providers := AList.delete (provider_id p) (providers m),
         dispose_calls := dispose_calls m @ [p]\<rparr>"
    by (simp add: registerAiProvider_def)
  have 5: "p \<notin> set (completionProviders m) \<longrightarrow>
        dispose (fst (registerCodeCompletionProvider p m))
          (snd (registerCodeCompletionProvider p m)) = m
        \<and> dispose (fst (registerCodeCompletionProvider p m)) m = m"
    by (simp add: registerCodeCompletionProvider_def remove_provider_remove1
        remove1_append remove1_idem)
  have 6: "p \<notin> set (chatProviders m) \<longrightarrow>
        dispose (fst (registerChatProvider p m)) (snd (registerChatProvider p m)) = m
        \<and> dispose (fst (registerChatProvider p m)) m = m"
    by (simp add: registerChatProvider_def remove_provider_remove1
        remove1_append remove1_idem)
  have 7: "p \<notin> set (codeEditProviders m) \<longrightarrow>
        dispose (fst (registerCodeEditProvider p m)) (snd (registerCodeEditProvider p m)) = m
        \<and> dispose (fst (registerCodeEditProvider p m)) m = m"
    by (simp add: registerCodeEditProvider_def remove_provider_remove1
        remove1_append remove1_idem)
  have 8: "dispose (fst (registerCodeCompletionProvider p m))
         (dispose (fst (registerCodeCompletionProvider p m))
            (snd (registerCodeCompletionProvider p m)))
       = dispose (fst (registerCodeCompletionProvider p m))
           (snd (registerCodeCompletionProvider p m))
       \<longleftrightarrow> p \<notin> set (completionProviders m)"
    unfolding registerCodeCompletionProvider_def fst_conv snd_conv
    by (rule completion_disposed_twice)
  have 9: "dispose (fst (registerChatProvider p m))
         (dispose (fst (registerChatProvider p m)) (snd (registerChatProvider p m)))
       = dispose (fst (registerChatProvider p m)) (snd (registerChatProvider p m))
       \<longleftrightarrow> p \<notin> set (chatProviders m)"
    unfolding registerChatProvider_def fst_conv snd_conv
    by (rule chat_disposed_twice)
  have 10: "dispose (fst (registerCodeEditProvider p m))
         (dispose (fst (registerCodeEditProvider p m)) (snd (registerCodeEditProvider p m)))
       = dispose (fst (registerCodeEditProvider p m)) (snd (registerCodeEditProvider p m))
       \<longleftrightarrow> p \<notin> set (codeEditProviders m)"
    unfolding registerCodeEditProvider_def fst_conv snd_conv
    by (rule codeEdit_disposed_twice)
  show ?thesis
    by (intro conjI) (rule 1 2 3 4 5 6 7 8 9 10)+
qed

text \<open>
  A manager whose three lists hold another provider \<open>q\<close>: registering \<open>p\<close> and invoking
  the capability restores the lists, and a second invocation changes nothing. A
  manager whose chat list holds \<open>p\<close> already: the second invocation is not a no-op.
\<close>

theorem C9_unregister_witness:
  "(let p = \<lparr>object_ref = 1, provider_id = ''p'', provider_name = ''P'', capabilities = [Chat]\<rparr>;
        q = \<lparr>object_ref = 2, provider_id = ''q'', provider_name = ''Q'', capabilities = [Chat]\<rparr>;
        m = \<lparr>providers = [], completionProviders = [q], chatProviders = [q],
             codeEditProviders = [q], dispose_calls = []\<rparr>;
        m' = \<lparr>providers = [], completionProviders = [], chatProviders = [p, q],
              codeEditProviders = [], dispose_calls = []\<rparr>
    in p \<notin> set (completionProviders m)
       \<and> dispose (fst (registerCodeCompletionProvider p m))
            (snd (registerCodeCompletionProvider p m)) = m
       \<and> dispose (fst (registerCodeCompletionProvider p m)) m = m
       \<and> p \<notin> set (chatProviders m)
       \<and> dispose (fst (registerChatProvider p m)) (snd (registerChatProvider p m)) = m
       \<and> dispose (fst (registerChatProvider p m)) m = m
       \<and> dispose (fst (registerChatProvider p m))
            (dispose (fst (registerChatProvider p m)) (snd (registerChatProvider p m)))
          = dispose (fst (registerChatProvider p m)) (snd (registerChatProvider p m))
       \<and> p \<notin> set (codeEditProviders m)
       \<and> dispose (fst (registerCodeEditProvider p m)) (snd (registerCodeEditProvider p m)) = m
       \<and> dispose (fst (registerCodeEditProvider p m)) m = m
       \<and> p \<in> set (chatProviders m')
       \<and> dispose (fst (registerChatProvider p m'))
            (dispose (fst (registerChatProvider p m')) (snd (registerChatProvider p m')))
          \<noteq> dispose (fst (registerChatProvider p m')) (snd (registerChatProvider p m')))"
  using C9_unregister
    [of "\<lparr>object_ref = 1, provider_id = ''p'', provider_name = ''P'', capabilities = [Chat]\<rparr>"
        "\<lparr>providers = [], completionProviders = [\<lparr>object_ref = 2, provider_id = ''q'', provider_name = ''Q'', capabilities = [Chat]\<rparr>],
             chatProviders = [\<lparr>object_ref = 2, provider_id = ''q'', provider_name = ''Q'', capabilities = [Chat]\<rparr>], codeEditProviders = [\<lparr>object_ref = 2, provider_id = ''q'', provider_name = ''Q'', capabilities = [Chat]\<rparr>], dispose_calls = []\<rparr>"
        "\<lparr>providers = [], completionProviders = [\<lparr>object_ref = 2, provider_id = ''q'', provider_name = ''Q'', capabilities = [Chat]\<rparr>],
             chatProviders = [\<lparr>object_ref = 2, provider_id = ''q'', provider_name = ''Q'', capabilities = [Chat]\<rparr>], codeEditProviders = [\<lparr>object_ref = 2, provider_id = ''q'', provider_name = ''Q'', capabilities = [Chat]\<rparr>], dispose_calls = []\<rparr>"]
    C9_unregister
    [of "\<lparr>object_ref = 1, provider_id = ''p'', provider_name = ''P'', capabilities = [Chat]\<rparr>"
        "\<lparr>providers = [], completionProviders = [],
          chatProviders = [\<lparr>object_ref = 1, provider_id = ''p'', provider_name = ''P'', capabilities = [Chat]\<rparr>,
                           \<lparr>object_ref = 2, provider_id = ''q'', provider_name = ''Q'', capabilities = [Chat]\<rparr>],
          codeEditProviders = [], dispose_calls = []\<rparr>"
        "\<lparr>providers = [], completionProviders = [],
          chatProviders = [\<lparr>object_ref = 1, provider_id = ''p'', provider_name = ''P'', capabilities = [Chat]\<rparr>,
                           \<lparr>object_ref = 2, provider_id = ''q'', provider_name = ''Q'', capabilities = [Chat]\<rparr>],
          codeEditProviders = [], dispose_calls = []\<rparr>"]
  by (simp add: Let_def)


section \<open>The context manager\<close>

lemma setContext_fields:
  "currentContext (setContext u m) = spread (currentContext m) u"
  "contextHistory (setContext u m) =
     (if length (contextHistory m) \<ge> maxHistorySize
      then tl (contextHistory m @ [currentContext m])
      else contextHistory m @ [currentContext m])"
  "onContextUpdated (setContext u m) =
     onContextUpdated m @ [\<lparr>event_context = spread (currentContext m) u, changes = u\<rparr>]"
  by (auto simp: setContext_def addToHistory_def Let_def)

lemma history_fold_setContext:
  "length (contextHistory m) \<le> maxHistorySize \<Longrightarrow>
     contextHistory (fold setContext us m) =
       drop (length (contextHistory m) + length us - maxHistorySize)
         (contextHistory m @ pre_update_snapshots (currentContext m) us)"
proof (induction us arbitrary: m)
  case Nil
  then show ?case by simp
next
  case (Cons u us)
  let ?h = "contextHistory m"
  let ?c = "currentContext m"
  let ?S = "pre_update_snapshots (spread ?c u) us"
  show ?case
  proof (cases "length ?h = maxHistorySize")
    case True
    then have ne: "?h \<noteq> []" by (auto simp: maxHistorySize_def)
    from True have h': "contextHistory (setContext u m) = tl ?h @ [?c]"
      using ne by (simp add: setContext_fields)
    then have len: "length (contextHistory (setContext u m)) = maxHistorySize"
      using True ne by (cases "contextHistory m") simp_all
    have le: "length (contextHistory (setContext u m)) \<le> maxHistorySize"
      by (simp only: len)
    have "contextHistory (fold setContext us (setContext u m))
        = drop (length (contextHistory (setContext u m)) + length us - maxHistorySize)
            (contextHistory (setContext u m)
               @ pre_update_snapshots (currentContext (setContext u m)) us)"
      by (rule Cons.IH [OF le])
    also have "length (contextHistory (setContext u m)) + length us - maxHistorySize
        = length us"
      by (simp add: len)
    also have "contextHistory (setContext u m)
               @ pre_update_snapshots (currentContext (setContext u m)) us
        = tl (?h @ ?c # ?S)"
      using ne by (simp add: h' setContext_fields(1))
    also have "drop (length us) (tl (?h @ ?c # ?S)) = drop (Suc (length us)) (?h @ ?c # ?S)"
      by (simp only: drop_Suc)
    finally show ?thesis
      using True by (simp del: drop_append)
  next
    case False
    with Cons.prems have lt: "length ?h < maxHistorySize" by simp
    then have h': "contextHistory (setContext u m) = ?h @ [?c]"
      by (simp add: setContext_fields)
    then have len: "length (contextHistory (setContext u m)) \<le> maxHistorySize"
      using lt by simp
    from Cons.IH [OF len]
    show ?thesis
      by (simp add: setContext_fields(1) h')
  qed
qed

lemma length_pre_update_snapshots: "length (pre_update_snapshots c us) = length us"
  by (induction us arbitrary: c) simp_all

lemma history_from_empty:
  assumes "contextHistory m = []" and "currentContext m = empty_context"
  shows "contextHistory (fold setContext us m)
           = drop (length us - maxHistorySize) (pre_update_snapshots empty_context us)"
    and "length (contextHistory (fold setContext us m)) = min (length us) maxHistorySize"
proof -
  show 1: "contextHistory (fold setContext us m)
           = drop (length us - maxHistorySize) (pre_update_snapshots empty_context us)"
    using history_fold_setContext [of m us] assms by simp
  show "length (contextHistory (fold setContext us m)) = min (length us) maxHistorySize"
    unfolding 1 by (simp add: length_pre_update_snapshots)
qed


section \<open>Claims about the context manager\<close>

text \<open>
  Claim C7. \<^verbatim>\<open>setContext\<close> overlays the update on the current context field by field:
  each of the seven fields takes the update's value when the update has the field (also
  when that value is \<^verbatim>\<open>undefined\<close>) and keeps its prior value otherwise. \<^verbatim>\<open>setContext({language: 'ts'})\<close> followed by
  \<^verbatim>\<open>setContext({framework: 'react'})\<close> yields the prior context with both fields set and
  every other field unchanged.
\<close>

theorem C7_setContext_overlay:
  "workspace (currentContext (setContext u m))
     = (case workspace u of Absent \<Rightarrow> workspace (currentContext m) | _ \<Rightarrow> workspace u)
   \<and> file_context (currentContext (setContext u m))
     = (case file_context u of Absent \<Rightarrow> file_context (currentContext m)
        | _ \<Rightarrow> file_context u)
   \<and> selection (currentContext (setContext u m))
     = (case selection u of Absent \<Rightarrow> selection (currentContext m) | _ \<Rightarrow> selection u)
   \<and> language (currentContext (setContext u m))
     = (case language u of Absent \<Rightarrow> language (currentContext m) | _ \<Rightarrow> language u)
   \<and> framework (currentContext (setContext u m))
     = (case framework u of Absent \<Rightarrow> framework (currentContext m) | _ \<Rightarrow> framework u)
   \<and> projectType (currentContext (setContext u m))
     = (case projectType u of Absent \<Rightarrow> projectType (currentContext m)
        | _ \<Rightarrow> projectType u)
   \<and> userPreferences (currentContext (setContext u m))
     = (case userPreferences u of Absent \<Rightarrow> userPreferences (currentContext m)
        | _ \<Rightarrow> userPreferences u)
   \<and> currentContext
        (setContext (empty_context\<lparr>framework := Value ''react''\<rparr>)
          (setContext (empty_context\<lparr>language := Value ''ts''\<rparr>) m))
     = (currentContext m)\<lparr>language := Value ''ts'', framework := Value ''react''\<rparr>"
  by (simp add: setContext_fields spread_def spread_field_def empty_context_def
      split: property.split)

text \<open>
  Claim C8. After \<open>n\<close> calls of \<^verbatim>\<open>setContext\<close> on a fresh or a cleared manager, the
  history has \<open>min n 10\<close> entries: the last \<open>min n 10\<close> of the \<open>n\<close> pre-update snapshots,
  in order, the oldest ones having been dropped from the front. After 15 calls the
  history is the 10 most recent pre-update snapshots. (The earlier revision of the
  assistant service has the same steps inline, with the literal 10.)
\<close>

theorem C8_history_bounded:
  "length (contextHistory (fold setContext us new_AiContextManager))
     = min (length us) 10
   \<and> contextHistory (fold setContext us new_AiContextManager)
     = drop (length us - 10) (pre_update_snapshots empty_context us)
   \<and> length (contextHistory (fold setContext us (clearContext m))) = min (length us) 10
   \<and> contextHistory (fold setContext us (clearContext m))
     = drop (length us - 10) (pre_update_snapshots empty_context us)
   \<and> length (contextHistory (fold setContext
        [u1, u2, u3, u4, u5, u6, u7, u8, u9, u10, u11, u12, u13, u14, u15]
        new_AiContextManager)) = 10
   \<and> contextHistory (fold setContext
        [u1, u2, u3, u4, u5, u6, u7, u8, u9, u10, u11, u12, u13, u14, u15]
        new_AiContextManager)
     = drop 5 (pre_update_snapshots empty_context
        [u1, u2, u3, u4, u5, u6, u7, u8, u9, u10, u11, u12, u13, u14, u15])"
proof -
  have n: "contextHistory new_AiContextManager = []"
    "currentContext new_AiContextManager = empty_context"
    by (simp_all add: new_AiContextManager_def)
  have c: "contextHistory (clearContext m) = []"
    "currentContext (clearContext m) = empty_context"
    by (simp_all add: clearContext_def)
  note a = history_from_empty [OF n, unfolded maxHistorySize_def]
  note b = history_from_empty [OF c, unfolded maxHistorySize_def]
  have 5: "contextHistory (fold setContext
        [u1, u2, u3, u4, u5, u6, u7, u8, u9, u10, u11, u12, u13, u14, u15]
        new_AiContextManager)
     = drop 5 (pre_update_snapshots empty_context
        [u1, u2, u3, u4, u5, u6, u7, u8, u9, u10, u11, u12, u13, u14, u15])"
    using a(1) [of "[u1, u2, u3, u4, u5, u6, u7, u8, u9, u10, u11, u12, u13, u14, u15]"]
    by simp
  have 6: "length (contextHistory (fold setContext
        [u1, u2, u3, u4, u5, u6, u7, u8, u9, u10, u11, u12, u13, u14, u15]
        new_AiContextManager)) = 10"
    using a(2) [of "[u1, u2, u3, u4, u5, u6, u7, u8, u9, u10, u11, u12, u13, u14, u15]"]
    by simp
  from a b 5 6 show ?thesis by blast
qed

end
